theory Spec2Isabelle
  imports Complex_Main "HOL-Library.AList"
begin

section \<open>Data model\<close>

text \<open>
  The billing backend stores four Mongo collections: customers, products, sales and
  payments. A collection is an association list from document ids to documents, in
  insertion order; \<open>findById\<close> is \<^const>\<open>map_of\<close> and a write of a document is
  \<^const>\<open>AList.update\<close> (in place when the id exists, appended otherwise).

  A JavaScript Number that holds an amount is a \<^typ>\<open>rat\<close>: a double is the
  rational it denotes, and a decimal literal stands for the double it parses to (see
  \<open>tolerance\<close> below for \<open>0.01\<close>). Comparisons are therefore the code's own.
  Arithmetic is exact: the rounding of a sum, difference or product to the nearest
  double is not modelled, nor are NaN and the infinities. A request field that may be
  absent (or does not parse as a number) is an \<^typ>\<open>rat option\<close>.

  Fields of different schemas that share a name in the source (customer, total,
  discount, status, sales, amount) carry a prefix per record: \<open>i_\<close> for a line item,
  \<open>s_\<close> for a sale, \<open>a_\<close> for an allocation, \<open>p_\<close> for a payment. Strings and dates
  (invoice and receipt numbers, notes, payment method, lastPurchase, createdBy) take no
  part in the balance arithmetic and are left out.
\<close>

type_synonym oid = nat

datatype paymentStatus = Paid | Partial | Pending | Overpaid

datatype saleStatus = Completed | Cancelled | Refunded

datatype error = ValidationFailed | NotFound | InvalidState | InsufficientStock | ServerError

record saleItem =
  i_product :: oid
  i_quantity :: rat
  i_price :: rat
  i_discount :: rat
  i_total :: rat

record sale =
  s_customer :: oid
  s_items :: "saleItem list"
  s_subtotal :: rat
  s_discount :: rat
  s_tax :: rat
  s_total :: rat
  s_paid :: rat
  s_balance :: rat
  s_paymentStatus :: paymentStatus
  s_status :: saleStatus

record allocation =
  a_sale :: oid
  a_amount :: rat

record payment =
  p_customer :: oid
  p_amount :: rat
  p_sales :: "allocation list"
  p_totalAllocated :: rat

record customer =
  creditLimit :: rat
  outstandingAmount :: rat
  totalPurchase :: rat

record product =
  stock_current :: rat

record db =
  customers :: "(oid \<times> customer) list"
  products :: "(oid \<times> product) list"
  sales :: "(oid \<times> sale) list"
  payments :: "(oid \<times> payment) list"

text \<open>
  A handler returns its HTTP response (an error, or the data of a success) together with
  the database it leaves behind: nothing is rolled back when a handler fails midway.
\<close>

type_synonym 'a response = "(error + 'a) \<times> db"

subsection \<open>Number helpers\<close>

text \<open>
  The literal \<open>0.01\<close> of the source, in the status rule, in the rounding of a balance
  and in the \<open>min\<close> validators: the double nearest one hundredth,
  \<open>5764607523034235 / 2^59\<close>, a little above \<open>1/100\<close>.
\<close>

definition tolerance :: rat where
  "tolerance = 5764607523034235 / 576460752303423488"

text \<open>\<open>parseFloat(x) || d\<close>: an absent or unparsable \<open>x\<close> (NaN) and zero are falsy.\<close>

definition numOr :: "rat option \<Rightarrow> rat \<Rightarrow> rat" where
  "numOr x d = (case x of None \<Rightarrow> d | Some v \<Rightarrow> if v = 0 then d else v)"

text \<open>express-validator's \<open>optional().isFloat({ min: m })\<close>.\<close>

definition optionalMin :: "rat \<Rightarrow> rat option \<Rightarrow> bool" where
  "optionalMin m x = (case x of None \<Rightarrow> True | Some v \<Rightarrow> m \<le> v)"

text \<open>\<open>isFloat({ min: m })\<close> on a required field.\<close>

definition requiredMin :: "rat \<Rightarrow> rat option \<Rightarrow> bool" where
  "requiredMin m x = (case x of None \<Rightarrow> False | Some v \<Rightarrow> m \<le> v)"

text \<open>The id Mongo gives a new document: one that no stored document has.\<close>

definition newId :: "(oid \<times> 'a) list \<Rightarrow> oid" where
  "newId al = Suc (fold max (map fst al) 0)"

section \<open>The payment status rule\<close>

text \<open>
  The same if-chain is written out five times in the controllers (sale creation, sale
  update, payment allocation, reversal of an allocation, re-application of an
  allocation); it reads a balance and a paid amount and compares the balance with the
  double \<open>0.01\<close>.
\<close>

definition paymentStatusOf :: "rat \<Rightarrow> rat \<Rightarrow> paymentStatus" where
  "paymentStatusOf bal pd =
     (if bal < - tolerance then Overpaid
      else if \<bar>bal\<bar> < tolerance then Paid
      else if pd > 0 then Partial
      else Pending)"

text \<open>\<open>Math.abs(b) < 0.01 ? 0 : b\<close>, the rounding of a balance in sale creation and update.\<close>

definition snapBalance :: "rat \<Rightarrow> rat" where
  "snapBalance b = (if \<bar>b\<bar> < tolerance then 0 else b)"

section \<open>Model operations of mongoose\<close>

text \<open>\<open>Customer.findByIdAndUpdate(id, { $inc: ... })\<close>: no validators run, a missing id is
  no error.\<close>

definition customerInc :: "oid \<Rightarrow> rat \<Rightarrow> rat \<Rightarrow> db \<Rightarrow> db" where
  "customerInc cid dPurchase dOutstanding st =
     (case map_of (customers st) cid of
        None \<Rightarrow> st
      | Some c \<Rightarrow>
          st\<lparr>customers := AList.update cid
                (c\<lparr>totalPurchase := totalPurchase c + dPurchase,
                   outstandingAmount := outstandingAmount c + dOutstanding\<rparr>)
                (customers st)\<rparr>)"

text \<open>\<open>Product.findByIdAndUpdate(id, { $inc: { 'stock.current': d } })\<close>.\<close>

definition productInc :: "oid \<Rightarrow> rat \<Rightarrow> db \<Rightarrow> db" where
  "productInc pid d st =
     (case map_of (products st) pid of
        None \<Rightarrow> st
      | Some p \<Rightarrow>
          st\<lparr>products := AList.update pid (p\<lparr>stock_current := stock_current p + d\<rparr>)
                (products st)\<rparr>)"

text \<open>The \<open>min\<close> validators of the Sale schema; mongoose runs them on every save.\<close>

definition itemValid :: "saleItem \<Rightarrow> bool" where
  "itemValid i \<longleftrightarrow>
     tolerance \<le> i_quantity i \<and> 0 \<le> i_price i \<and> 0 \<le> i_discount i \<and> 0 \<le> i_total i"

definition saleValid :: "sale \<Rightarrow> bool" where
  "saleValid s \<longleftrightarrow>
     list_all itemValid (s_items s) \<and> 0 \<le> s_subtotal s \<and> 0 \<le> s_discount s \<and>
     0 \<le> s_tax s \<and> 0 \<le> s_total s \<and> 0 \<le> s_paid s"

text \<open>\<open>saleSchema.post('save')\<close>: a completed sale with a positive balance adds its
  balance to the customer's outstanding amount.\<close>

definition postSave :: "sale \<Rightarrow> db \<Rightarrow> db" where
  "postSave s st =
     (if s_status s = Completed \<and> s_balance s > 0
      then customerInc (s_customer s) 0 (s_balance s) st
      else st)"

text \<open>\<open>sale.save()\<close> (and \<open>Sale.create\<close>, with a new id): validate, write, run the
  hook. \<open>None\<close> is the ValidationError mongoose throws.\<close>

definition saleSave :: "oid \<Rightarrow> sale \<Rightarrow> db \<Rightarrow> db option" where
  "saleSave sid s st =
     (if saleValid s
      then Some (postSave s (st\<lparr>sales := AList.update sid s (sales st)\<rparr>))
      else None)"

text \<open>The \<open>min\<close> validators of the Payment schema.\<close>

definition paymentValid :: "payment \<Rightarrow> bool" where
  "paymentValid p \<longleftrightarrow>
     tolerance \<le> p_amount p \<and> list_all (\<lambda>a. 0 \<le> a_amount a) (p_sales p) \<and>
     0 \<le> p_totalAllocated p"

definition paymentSave :: "oid \<Rightarrow> payment \<Rightarrow> db \<Rightarrow> db option" where
  "paymentSave pid p st =
     (if paymentValid p
      then Some (st\<lparr>payments := AList.update pid p (payments st)\<rparr>)
      else None)"

text \<open>The virtual \<open>remainingAmount\<close> of the Payment schema.\<close>

definition remainingAmount :: "payment \<Rightarrow> rat" where
  "remainingAmount p = p_amount p - p_totalAllocated p"

section \<open>Sales\<close>

subsection \<open>createSale\<close>

text \<open>An item of a request body. A client may send a line total of its own; createSale
  overwrites it, updateSale stores it.\<close>

record itemReq =
  r_product :: oid
  r_quantity :: "rat option"
  r_price :: "rat option"
  r_discount :: "rat option"
  r_total :: "rat option"

record createSaleBody =
  cs_customer :: oid
  cs_items :: "itemReq list"
  cs_discount :: "rat option"
  cs_tax :: "rat option"
  cs_paid :: "rat option"

text \<open>The route's \<open>createSaleValidation\<close>, on the numeric fields.\<close>

definition itemReqValid :: "itemReq \<Rightarrow> bool" where
  "itemReqValid i \<longleftrightarrow>
     requiredMin tolerance (r_quantity i) \<and> requiredMin 0 (r_price i) \<and>
     optionalMin 0 (r_discount i)"

definition createSaleValidation :: "createSaleBody \<Rightarrow> bool" where
  "createSaleValidation b \<longleftrightarrow>
     cs_items b \<noteq> [] \<and> list_all itemReqValid (cs_items b) \<and>
     optionalMin 0 (cs_discount b) \<and> optionalMin 0 (cs_tax b) \<and> optionalMin 0 (cs_paid b)"

text \<open>The conversion of one request item to numbers, with its line total.\<close>

definition lineItem :: "itemReq \<Rightarrow> saleItem" where
  "lineItem i =
     (let q = numOr (r_quantity i) 0; p = numOr (r_price i) 0; d = numOr (r_discount i) 0
      in \<lparr>i_product = r_product i, i_quantity = q, i_price = p, i_discount = d,
          i_total = p * q - d\<rparr>)"

text \<open>\<open>product.stock.current < item.quantity\<close>, read before the conversion: a
  comparison with an absent quantity is false.\<close>

definition stockShort :: "product \<Rightarrow> itemReq \<Rightarrow> bool" where
  "stockShort p i = (case r_quantity i of None \<Rightarrow> False | Some q \<Rightarrow> stock_current p < q)"

text \<open>The first loop of createSale: per item, the product must exist and have the stock;
  the subtotal accumulates.\<close>

fun checkItems :: "(oid \<times> product) list \<Rightarrow> itemReq list \<Rightarrow> rat \<Rightarrow> error + (saleItem list \<times> rat)" where
  "checkItems ps [] subtotal = Inr ([], subtotal)"
| "checkItems ps (i # is) subtotal =
     (case map_of ps (r_product i) of
        None \<Rightarrow> Inl NotFound
      | Some p \<Rightarrow>
          if stockShort p i then Inl InsufficientStock
          else (case checkItems ps is (subtotal + i_total (lineItem i)) of
                  Inl e \<Rightarrow> Inl e
                | Inr (its, sub) \<Rightarrow> Inr (lineItem i # its, sub)))"

text \<open>The second loop: the stock of every item's product goes down by its quantity.\<close>

fun decrementStock :: "saleItem list \<Rightarrow> db \<Rightarrow> db" where
  "decrementStock [] st = st"
| "decrementStock (i # is) st = decrementStock is (productInc (i_product i) (- i_quantity i) st)"

definition createSale :: "createSaleBody \<Rightarrow> db \<Rightarrow> (oid \<times> sale) response" where
  "createSale b st =
     (if \<not> createSaleValidation b then (Inl ValidationFailed, st)
      else
        let discountAmount = numOr (cs_discount b) 0;
            taxAmount = numOr (cs_tax b) 0;
            paidAmount = numOr (cs_paid b) 0
        in (case map_of (customers st) (cs_customer b) of
             None \<Rightarrow> (Inl NotFound, st)
           | Some _ \<Rightarrow>
               (case checkItems (products st) (cs_items b) 0 of
                  Inl e \<Rightarrow> (Inl e, st)
                | Inr (its, subtotal) \<Rightarrow>
                    (let tot = subtotal - discountAmount + taxAmount;
                        bal = tot - paidAmount;
                        saleData = \<lparr>s_customer = cs_customer b, s_items = its,
                                    s_subtotal = subtotal, s_discount = discountAmount,
                                    s_tax = taxAmount, s_total = tot, s_paid = paidAmount,
                                    s_balance = snapBalance bal,
                                    s_paymentStatus = paymentStatusOf bal paidAmount,
                                    s_status = Completed\<rparr>;
                        sid = newId (sales st)
                    in (case saleSave sid saleData st of
                          None \<Rightarrow> (Inl ValidationFailed, st)
                        | Some st1 \<Rightarrow>
                            (let st2 = decrementStock its st1;
                                 st3 = customerInc (cs_customer b) tot (s_balance saleData) st2
                             in (Inr (sid, saleData), st3)))))))"

subsection \<open>updateSale\<close>

text \<open>
  The body of an update may carry any field of the schema: the handler copies every
  defined key onto the document before it recomputes.
\<close>

record updateSaleBody =
  us_customer :: "oid option"
  us_items :: "itemReq list option"
  us_subtotal :: "rat option"
  us_discount :: "rat option"
  us_tax :: "rat option"
  us_total :: "rat option"
  us_paid :: "rat option"
  us_balance :: "rat option"
  us_paymentStatus :: "paymentStatus option"
  us_status :: "saleStatus option"

text \<open>The route's \<open>updateSaleValidation\<close>: every field is optional.\<close>

definition itemPatchValid :: "itemReq \<Rightarrow> bool" where
  "itemPatchValid i \<longleftrightarrow>
     optionalMin tolerance (r_quantity i) \<and> optionalMin 0 (r_price i) \<and>
     optionalMin 0 (r_discount i)"

definition updateSaleValidation :: "updateSaleBody \<Rightarrow> bool" where
  "updateSaleValidation b \<longleftrightarrow>
     (case us_items b of None \<Rightarrow> True | Some its \<Rightarrow> its \<noteq> [] \<and> list_all itemPatchValid its) \<and>
     optionalMin 0 (us_discount b) \<and> optionalMin 0 (us_tax b) \<and> optionalMin 0 (us_paid b)"

definition orKeep :: "'a option \<Rightarrow> 'a \<Rightarrow> 'a" where
  "orKeep x old = (case x of None \<Rightarrow> old | Some v \<Rightarrow> v)"

text \<open>
  The subdocument mongoose makes of a request item when the items are assigned to the
  document: the values as the client sent them, the discount defaulting to 0. The
  handler computes its line totals afterwards, on the request's own objects, so they
  do not reach the document. A required path that was not sent (quantity, price or
  total) stays undefined and makes the save fail (\<open>requiredPaths\<close>); the 0 that
  stands for it here is then never stored.
\<close>

definition castItem :: "itemReq \<Rightarrow> saleItem" where
  "castItem i =
     \<lparr>i_product = r_product i, i_quantity = orKeep (r_quantity i) 0,
      i_price = orKeep (r_price i) 0, i_discount = orKeep (r_discount i) 0,
      i_total = orKeep (r_total i) 0\<rparr>"

definition requiredPaths :: "updateSaleBody \<Rightarrow> bool" where
  "requiredPaths b \<longleftrightarrow>
     (case us_items b of
        None \<Rightarrow> True
      | Some its \<Rightarrow>
          list_all (\<lambda>i. r_quantity i \<noteq> None \<and> r_price i \<noteq> None \<and> r_total i \<noteq> None) its)"

text \<open>\<open>Object.keys(req.body).forEach(key => sale[key] = req.body[key])\<close>.\<close>

definition assignBody :: "updateSaleBody \<Rightarrow> sale \<Rightarrow> sale" where
  "assignBody b s =
     s\<lparr>s_customer := orKeep (us_customer b) (s_customer s),
       s_items := (case us_items b of None \<Rightarrow> s_items s | Some its \<Rightarrow> map castItem its),
       s_subtotal := orKeep (us_subtotal b) (s_subtotal s),
       s_discount := orKeep (us_discount b) (s_discount s),
       s_tax := orKeep (us_tax b) (s_tax s),
       s_total := orKeep (us_total b) (s_total s),
       s_paid := orKeep (us_paid b) (s_paid s),
       s_balance := orKeep (us_balance b) (s_balance s),
       s_paymentStatus := orKeep (us_paymentStatus b) (s_paymentStatus s),
       s_status := orKeep (us_status b) (s_status s)\<rparr>"

text \<open>The recalculation of the totals when the body has items, from the line totals
  the handler computes.\<close>

definition recalcTotals :: "updateSaleBody \<Rightarrow> sale \<Rightarrow> sale" where
  "recalcTotals b s =
     (case us_items b of
        None \<Rightarrow> s
      | Some its \<Rightarrow>
          (let subtotal = foldl (\<lambda>acc i. acc + i_total (lineItem i)) 0 its;
               disc = numOr (us_discount b) (s_discount s);
               tx = numOr (us_tax b) (s_tax s)
           in s\<lparr>s_subtotal := subtotal, s_discount := disc, s_tax := tx,
                s_total := subtotal - disc + tx,
                s_paid := numOr (us_paid b) (s_paid s)\<rparr>))"

text \<open>The balance and the payment status, recomputed on every update.\<close>

definition rebalance :: "sale \<Rightarrow> sale" where
  "rebalance s =
     (let bal = snapBalance (s_total s - s_paid s)
      in s\<lparr>s_balance := bal, s_paymentStatus := paymentStatusOf bal (s_paid s)\<rparr>)"

definition updateSale :: "oid \<Rightarrow> updateSaleBody \<Rightarrow> db \<Rightarrow> sale response" where
  "updateSale sid b st =
     (if \<not> updateSaleValidation b then (Inl ValidationFailed, st)
      else
        (case map_of (sales st) sid of
           None \<Rightarrow> (Inl NotFound, st)
         | Some old \<Rightarrow>
             if s_status old = Cancelled then (Inl InvalidState, st)
             else
               (let oldTotal = s_total old;
                    oldBalance = s_balance old;
                    s = rebalance (recalcTotals b (assignBody b old))
                in (case (if requiredPaths b then saleSave sid s st else None) of
                      None \<Rightarrow> (Inl ValidationFailed, st)
                    | Some st1 \<Rightarrow>
                        (let totalDiff = s_total s - oldTotal;
                             balanceDiff = s_balance s - oldBalance;
                             st2 = (if totalDiff \<noteq> 0 \<or> balanceDiff \<noteq> 0
                                    then customerInc (s_customer s) totalDiff balanceDiff st1
                                    else st1)
                         in (Inr s, st2))))))"

subsection \<open>deleteSale\<close>

text \<open>The loop that gives every item's quantity back to its product.\<close>

fun restoreStock :: "saleItem list \<Rightarrow> db \<Rightarrow> db" where
  "restoreStock [] st = st"
| "restoreStock (i # is) st = restoreStock is (productInc (i_product i) (i_quantity i) st)"

text \<open>The stock and the customer are written before the sale is saved, so a save that
  fails its validation leaves both changed.\<close>

definition deleteSale :: "oid \<Rightarrow> db \<Rightarrow> unit response" where
  "deleteSale sid st =
     (case map_of (sales st) sid of
        None \<Rightarrow> (Inl NotFound, st)
      | Some s \<Rightarrow>
          if s_status s = Cancelled then (Inl InvalidState, st)
          else
            (let st1 = restoreStock (s_items s) st;
                 st2 = customerInc (s_customer s) (- s_total s) (- s_balance s) st1
             in (case saleSave sid (s\<lparr>s_status := Cancelled\<rparr>) st2 of
                   None \<Rightarrow> (Inl ServerError, st2)
                 | Some st3 \<Rightarrow> (Inr (), st3))))"

section \<open>Payments\<close>

subsection \<open>createPayment\<close>

record createPaymentBody =
  cp_customer :: oid
  cp_amount :: rat
  cp_sales :: "allocation list"

text \<open>The route's \<open>createPaymentValidation\<close>, on the numeric fields. An absent \<open>sales\<close>
  array is the empty list.\<close>

definition createPaymentValidation :: "createPaymentBody \<Rightarrow> bool" where
  "createPaymentValidation b \<longleftrightarrow>
     tolerance \<le> cp_amount b \<and> list_all (\<lambda>a. 0 \<le> a_amount a) (cp_sales b)"

text \<open>
  One pass of the allocation loop of createPayment, on the request's allocation \<open>a\<close>:
  the result is the allocation recorded on the payment.
\<close>

definition allocateOne :: "allocation \<Rightarrow> db \<Rightarrow> allocation response" where
  "allocateOne a st =
     (case map_of (sales st) (a_sale a) of
        None \<Rightarrow> (Inl NotFound, st)
      | Some s \<Rightarrow>
          if s_balance s \<le> 0 then (Inl InvalidState, st)
          else
            (let allocationAmount = min (a_amount a) (s_balance s);
                 oldBalance = s_balance s;
                 s1 = s\<lparr>s_paid := s_paid s + allocationAmount,
                        s_balance := s_balance s - allocationAmount\<rparr>;
                 s2 = s1\<lparr>s_paymentStatus := paymentStatusOf (s_balance s1) (s_paid s1)\<rparr>
             in (case saleSave (a_sale a) s2 st of
                   None \<Rightarrow> (Inl ServerError, st)
                 | Some st1 \<Rightarrow>
                     (let balanceChange = s_balance s2 - oldBalance
                      in (Inr \<lparr>a_sale = a_sale a, a_amount = allocationAmount\<rparr>,
                          customerInc (s_customer s2) 0 balanceChange st1)))))"

text \<open>The loop: the allocations in the caller's order, stopping at the first failure.
  The accumulator is the list recorded so far and \<open>totalAllocated\<close>.\<close>

fun allocateAll :: "allocation list \<Rightarrow> allocation list \<times> rat \<Rightarrow> db \<Rightarrow> (allocation list \<times> rat) response" where
  "allocateAll [] acc st = (Inr acc, st)"
| "allocateAll (a # as) acc st =
     (case allocateOne a st of
        (Inl e, st1) \<Rightarrow> (Inl e, st1)
      | (Inr rec, st1) \<Rightarrow> allocateAll as (fst acc @ [rec], snd acc + a_amount rec) st1)"

definition createPayment :: "createPaymentBody \<Rightarrow> db \<Rightarrow> (oid \<times> payment) response" where
  "createPayment b st =
     (if \<not> createPaymentValidation b then (Inl ValidationFailed, st)
      else
        (case map_of (customers st) (cp_customer b) of
           None \<Rightarrow> (Inl NotFound, st)
         | Some _ \<Rightarrow>
             (case allocateAll (cp_sales b) ([], 0) st of
                (Inl e, st1) \<Rightarrow> (Inl e, st1)
              | (Inr (recorded, totalAllocated), st1) \<Rightarrow>
                  (let paymentData = \<lparr>p_customer = cp_customer b, p_amount = cp_amount b,
                                       p_sales = recorded, p_totalAllocated = totalAllocated\<rparr>;
                       pid = newId (payments st1)
                   in (case paymentSave pid paymentData st1 of
                         None \<Rightarrow> (Inl ServerError, st1)
                       | Some st2 \<Rightarrow> (Inr (pid, paymentData), st2))))))"

subsection \<open>updatePayment\<close>

record updatePaymentBody =
  up_amount :: "rat option"
  up_sales :: "allocation list"

definition updatePaymentValidation :: "updatePaymentBody \<Rightarrow> bool" where
  "updatePaymentValidation b \<longleftrightarrow>
     optionalMin tolerance (up_amount b) \<and> list_all (\<lambda>a. 0 \<le> a_amount a) (up_sales b)"

text \<open>One pass of the reversal loop, on a recorded allocation. A sale that no longer
  exists is skipped; \<open>None\<close> is the ValidationError of the save.\<close>

definition reverseOne :: "allocation \<Rightarrow> db \<Rightarrow> db option" where
  "reverseOne a st =
     (case map_of (sales st) (a_sale a) of
        None \<Rightarrow> Some st
      | Some s \<Rightarrow>
          (let oldBalance = s_balance s;
               s1 = s\<lparr>s_paid := s_paid s - a_amount a, s_balance := s_balance s + a_amount a\<rparr>;
               s2 = s1\<lparr>s_paymentStatus := paymentStatusOf (s_balance s1) (s_paid s1)\<rparr>
           in (case saleSave (a_sale a) s2 st of
                 None \<Rightarrow> None
               | Some st1 \<Rightarrow>
                   Some (customerInc (s_customer s2) 0 (s_balance s2 - oldBalance) st1))))"

text \<open>The reversal loop. A failure returns the database as the passes before it left it.\<close>

fun reverseAll :: "allocation list \<Rightarrow> db \<Rightarrow> db + db" where
  "reverseAll [] st = Inr st"
| "reverseAll (a # as) st =
     (case reverseOne a st of None \<Rightarrow> Inl st | Some st1 \<Rightarrow> reverseAll as st1)"

text \<open>One pass of the loop that applies the new allocations.\<close>

definition reapplyOne :: "allocation \<Rightarrow> db \<Rightarrow> allocation response" where
  "reapplyOne a st =
     (case map_of (sales st) (a_sale a) of
        None \<Rightarrow> (Inl NotFound, st)
      | Some s \<Rightarrow>
          (let allocationAmount = a_amount a;
               oldBalance = s_balance s;
               s1 = s\<lparr>s_paid := s_paid s + allocationAmount,
                      s_balance := s_balance s - allocationAmount\<rparr>;
               s2 = s1\<lparr>s_paymentStatus := paymentStatusOf (s_balance s1) (s_paid s1)\<rparr>
           in (case saleSave (a_sale a) s2 st of
                 None \<Rightarrow> (Inl ServerError, st)
               | Some st1 \<Rightarrow>
                   (let balanceChange = s_balance s2 - oldBalance
                    in (Inr \<lparr>a_sale = a_sale a, a_amount = allocationAmount\<rparr>,
                        customerInc (s_customer s2) 0 balanceChange st1)))))"

fun reapplyAll :: "allocation list \<Rightarrow> allocation list \<times> rat \<Rightarrow> db \<Rightarrow> (allocation list \<times> rat) response" where
  "reapplyAll [] acc st = (Inr acc, st)"
| "reapplyAll (a # as) acc st =
     (case reapplyOne a st of
        (Inl e, st1) \<Rightarrow> (Inl e, st1)
      | (Inr rec, st1) \<Rightarrow> reapplyAll as (fst acc @ [rec], snd acc + a_amount rec) st1)"

definition updatePayment :: "oid \<Rightarrow> updatePaymentBody \<Rightarrow> db \<Rightarrow> payment response" where
  "updatePayment pid b st =
     (if \<not> updatePaymentValidation b then (Inl ValidationFailed, st)
      else
        (case map_of (payments st) pid of
           None \<Rightarrow> (Inl NotFound, st)
         | Some pay \<Rightarrow>
             (case reverseAll (p_sales pay) st of
                Inl st1 \<Rightarrow> (Inl ServerError, st1)
              | Inr st1 \<Rightarrow>
                  (case reapplyAll (up_sales b) ([], 0) st1 of
                     (Inl e, st2) \<Rightarrow> (Inl e, st2)
                   | (Inr (recorded, totalAllocated), st2) \<Rightarrow>
                       (let pay1 = pay\<lparr>p_amount := numOr (up_amount b) (p_amount pay),
                                       p_sales := recorded,
                                       p_totalAllocated := totalAllocated\<rparr>
                        in (case paymentSave pid pay1 st2 of
                              None \<Rightarrow> (Inl ServerError, st2)
                            | Some st3 \<Rightarrow> (Inr pay1, st3)))))))"

section \<open>The customer list\<close>

record customerObj = customer +
  calculatedOutstanding :: rat

text \<open>\<open>Sale.find({ customer: id, status: { $ne: 'cancelled' } })\<close>.\<close>

definition salesOfCustomer :: "oid \<Rightarrow> db \<Rightarrow> sale list" where
  "salesOfCustomer cid st =
     map snd (filter (\<lambda>(sid, s). s_customer s = cid \<and> s_status s \<noteq> Cancelled) (sales st))"

text \<open>The body of the \<open>customers.map\<close> callback of getCustomers.\<close>

definition withCalculatedOutstanding :: "db \<Rightarrow> oid \<times> customer \<Rightarrow> oid \<times> customerObj" where
  "withCalculatedOutstanding st = (\<lambda>(cid, c).
     (let found = salesOfCustomer cid st;
          calcOutstanding = foldl (\<lambda>acc s. acc + s_balance s) 0 found;
          calcTotalPurchase = foldl (\<lambda>acc s. acc + s_total s) 0 found
      in (cid, \<lparr>creditLimit = creditLimit c, outstandingAmount = calcOutstanding,
                totalPurchase = calcTotalPurchase,
                calculatedOutstanding = calcOutstanding\<rparr>)))"

text \<open>
  getCustomers. The Mongo query the handler builds from the request (filters, sort, skip
  and limit) is the parameter \<open>query\<close>: it picks the page of customers from the stored
  collection.
\<close>

definition getCustomers ::
  "((oid \<times> customer) list \<Rightarrow> (oid \<times> customer) list) \<Rightarrow> db \<Rightarrow> (oid \<times> customerObj) list response" where
  "getCustomers query st = (Inr (map (withCalculatedOutstanding st) (query (customers st))), st)"

section \<open>The status rule as the specification words it\<close>

text \<open>One unit in the last place of the double \<open>0.01\<close>.\<close>

definition toleranceUlp :: rat where
  "toleranceUlp = 1 / 2 ^ 59"

text \<open>
  The rule of the specification, read as a relation between the exact difference
  \<open>total - paid\<close>, the paid amount and a status, with strict bounds at the tolerance
  \<open>\<epsilon>\<close> (the double \<open>0.01\<close>): below \<open>-\<epsilon>\<close> overpaid, strictly inside \<open>(-\<epsilon>, \<epsilon>)\<close> paid, from
  \<open>\<epsilon>\<close> upwards partial when something was paid and pending when nothing was. The code
  compares the difference after it is rounded to the nearest double; rounding keeps
  the order and leaves a double as it is, so an exact difference of at most \<open>\<epsilon>\<close> less one
  unit in the last place is rounded to less than \<open>\<epsilon>\<close>, one of at least \<open>\<epsilon>\<close> to at least
  \<open>\<epsilon>\<close>, and one of at most \<open>-\<epsilon>\<close> less one unit to less than \<open>-\<epsilon>\<close>. The relation is
  stated on these three ranges and says nothing in between (in particular nothing at a
  difference of exactly \<open>-\<epsilon>\<close>).
\<close>

definition statusByRule :: "rat \<Rightarrow> rat \<Rightarrow> paymentStatus \<Rightarrow> bool" where
  "statusByRule bal pd ps \<longleftrightarrow>
     (bal \<le> - (tolerance + toleranceUlp) \<longrightarrow> ps = Overpaid) \<and>
     (\<bar>bal\<bar> \<le> tolerance - toleranceUlp \<longrightarrow> ps = Paid) \<and>
     (tolerance \<le> bal \<and> 0 < pd \<longrightarrow> ps = Partial) \<and>
     (tolerance \<le> bal \<and> pd = 0 \<longrightarrow> ps = Pending)"

section \<open>A worked ledger\<close>

text \<open>
  One customer and one product; sale A of one unit at 1000 with nothing paid; a payment
  of 600 allocated to A. These are the states the concrete theorems below run on.
\<close>

definition db0 :: db where
  "db0 = \<lparr>customers = [(1, \<lparr>creditLimit = 0, outstandingAmount = 0, totalPurchase = 0\<rparr>)],
          products = [(1, \<lparr>stock_current = 10\<rparr>)], sales = [], payments = []\<rparr>"

definition body1000 :: createSaleBody where
  "body1000 = \<lparr>cs_customer = 1,
     cs_items = [\<lparr>r_product = 1, r_quantity = Some 1, r_price = Some 1000, r_discount = None, r_total = None\<rparr>],
     cs_discount = None, cs_tax = None, cs_paid = None\<rparr>"

definition itemA :: saleItem where
  "itemA = \<lparr>i_product = 1, i_quantity = 1, i_price = 1000, i_discount = 0, i_total = 1000\<rparr>"

definition saleA :: sale where
  "saleA = \<lparr>s_customer = 1, s_items = [itemA], s_subtotal = 1000, s_discount = 0, s_tax = 0,
            s_total = 1000, s_paid = 0, s_balance = 1000, s_paymentStatus = Pending,
            s_status = Completed\<rparr>"

text \<open>The database after \<open>createSale body1000 db0\<close>.\<close>

definition dbA :: db where
  "dbA = \<lparr>customers = [(1, \<lparr>creditLimit = 0, outstandingAmount = 2000, totalPurchase = 1000\<rparr>)],
          products = [(1, \<lparr>stock_current = 9\<rparr>)], sales = [(1, saleA)], payments = []\<rparr>"

definition alloc600 :: allocation where
  "alloc600 = \<lparr>a_sale = 1, a_amount = 600\<rparr>"

definition payBody600 :: createPaymentBody where
  "payBody600 = \<lparr>cp_customer = 1, cp_amount = 600, cp_sales = [alloc600]\<rparr>"

definition pay600 :: payment where
  "pay600 = \<lparr>p_customer = 1, p_amount = 600, p_sales = [alloc600], p_totalAllocated = 600\<rparr>"

definition saleA600 :: sale where
  "saleA600 = saleA\<lparr>s_paid := 600, s_balance := 400, s_paymentStatus := Partial\<rparr>"

text \<open>The database after \<open>createPayment payBody600 dbA\<close>.\<close>

definition dbB :: db where
  "dbB = \<lparr>customers = [(1, \<lparr>creditLimit = 0, outstandingAmount = 1800, totalPurchase = 1000\<rparr>)],
          products = [(1, \<lparr>stock_current = 9\<rparr>)], sales = [(1, saleA600)],
          payments = [(1, pay600)]\<rparr>"

definition paid600 :: updateSaleBody where
  "paid600 = \<lparr>us_customer = None, us_items = None, us_subtotal = None, us_discount = None,
              us_tax = None, us_total = None, us_paid = Some 600, us_balance = None,
              us_paymentStatus = None, us_status = None\<rparr>"

text \<open>The database after \<open>updateSale 1 paid600 dbA\<close>.\<close>

definition dbU :: db where
  "dbU = dbB\<lparr>payments := []\<rparr>"

text \<open>A sale of one unit at 0.01 with nothing paid: its balance is exactly the tolerance.\<close>

definition bodyCent :: createSaleBody where
  "bodyCent = \<lparr>cs_customer = 1,
     cs_items = [\<lparr>r_product = 1, r_quantity = Some 1, r_price = Some tolerance,
                 r_discount = None, r_total = None\<rparr>],
     cs_discount = None, cs_tax = None, cs_paid = None\<rparr>"

definition saleCent :: sale where
  "saleCent = \<lparr>s_customer = 1,
     s_items = [\<lparr>i_product = 1, i_quantity = 1, i_price = tolerance, i_discount = 0,
                 i_total = tolerance\<rparr>],
     s_subtotal = tolerance, s_discount = 0, s_tax = 0, s_total = tolerance, s_paid = 0,
     s_balance = tolerance, s_paymentStatus = Pending, s_status = Completed\<rparr>"

text \<open>The doubles nearest 999.99, 999.995 and 999.98, as paid amounts for sale A.\<close>

definition dbl999_99 :: rat where
  "dbl999_99 = 4398002530638889 / 4398046511104"

definition dbl999_995 :: rat where
  "dbl999_995 = 8796049041742889 / 8796093022208"

definition dbl999_98 :: rat where
  "dbl999_98 = 2198979275086889 / 2199023255552"

text \<open>The doubles nearest 99.99 and 9.99; a sale of one unit at a given price with a
  given amount paid; the balance and status a handler's answer carries.\<close>

definition dbl99_99 :: rat where
  "dbl99_99 = 7036170730324623 / 70368744177664"

definition dbl9_99 :: rat where
  "dbl9_99 = 5623870034678907 / 562949953421312"

definition bodyOf :: "rat \<Rightarrow> rat \<Rightarrow> createSaleBody" where
  "bodyOf price pd = \<lparr>cs_customer = 1,
     cs_items = [\<lparr>r_product = 1, r_quantity = Some 1, r_price = Some price,
                 r_discount = None, r_total = None\<rparr>],
     cs_discount = None, cs_tax = None, cs_paid = Some pd\<rparr>"

definition balanceAndStatus :: "(oid \<times> sale) response \<Rightarrow> (rat \<times> paymentStatus) option" where
  "balanceAndStatus r =
     (case fst r of Inl e \<Rightarrow> None | Inr (sid, s) \<Rightarrow> Some (s_balance s, s_paymentStatus s))"

text \<open>The database after the allocation of \<open>pay600\<close> is reversed in \<open>dbB\<close>.\<close>

definition dbR :: db where
  "dbR = \<lparr>customers = [(1, \<lparr>creditLimit = 0, outstandingAmount = 3400, totalPurchase = 1000\<rparr>)],
          products = [(1, \<lparr>stock_current = 9\<rparr>)], sales = [(1, saleA)],
          payments = [(1, pay600)]\<rparr>"

definition payBody500 :: createPaymentBody where
  "payBody500 = \<lparr>cp_customer = 1, cp_amount = 500, cp_sales = [\<lparr>a_sale = 1, a_amount = 500\<rparr>]\<rparr>"

definition pay500 :: payment where
  "pay500 = \<lparr>p_customer = 1, p_amount = 500, p_sales = [\<lparr>a_sale = 1, a_amount = 400\<rparr>],
             p_totalAllocated = 400\<rparr>"

definition saleA1000 :: sale where
  "saleA1000 = saleA\<lparr>s_paid := 1000, s_balance := 0, s_paymentStatus := Paid\<rparr>"

text \<open>The database after \<open>createPayment payBody500 dbB\<close>: sale A is settled.\<close>

definition dbC :: db where
  "dbC = \<lparr>customers = [(1, \<lparr>creditLimit = 0, outstandingAmount = 1400, totalPurchase = 1000\<rparr>)],
          products = [(1, \<lparr>stock_current = 9\<rparr>)], sales = [(1, saleA1000)],
          payments = [(1, pay600), (2, pay500)]\<rparr>"

text \<open>Two payments on \<open>dbA\<close> that allocate to sale A twice: 1000 then 500, and 600 then
  500.\<close>

definition payTwice :: createPaymentBody where
  "payTwice = \<lparr>cp_customer = 1, cp_amount = 1500,
     cp_sales = [\<lparr>a_sale = 1, a_amount = 1000\<rparr>, \<lparr>a_sale = 1, a_amount = 500\<rparr>]\<rparr>"

definition paySplit :: createPaymentBody where
  "paySplit = \<lparr>cp_customer = 1, cp_amount = 1100,
     cp_sales = [\<lparr>a_sale = 1, a_amount = 600\<rparr>, \<lparr>a_sale = 1, a_amount = 500\<rparr>]\<rparr>"

text \<open>The database after 1000 is allocated to sale A in \<open>dbA\<close>.\<close>

definition dbA1000 :: db where
  "dbA1000 = \<lparr>customers = [(1, \<lparr>creditLimit = 0, outstandingAmount = 1000, totalPurchase = 1000\<rparr>)],
          products = [(1, \<lparr>stock_current = 9\<rparr>)], sales = [(1, saleA1000)], payments = []\<rparr>"

text \<open>The database after \<open>deleteSale 1 dbB\<close>.\<close>

definition dbCancelled :: db where
  "dbCancelled =
     \<lparr>customers = [(1, \<lparr>creditLimit = 0, outstandingAmount = 1400, totalPurchase = 0\<rparr>)],
      products = [(1, \<lparr>stock_current = 10\<rparr>)],
      sales = [(1, saleA600\<lparr>s_status := Cancelled\<rparr>)], payments = [(1, pay600)]\<rparr>"

text \<open>A payment on \<open>dbA\<close> that allocates 999.995 to sale A, and sale A after it.\<close>

definition payNear :: createPaymentBody where
  "payNear = \<lparr>cp_customer = 1, cp_amount = 1000,
     cp_sales = [\<lparr>a_sale = 1, a_amount = 199999 / 200\<rparr>]\<rparr>"

definition saleNear :: sale where
  "saleNear = saleA\<lparr>s_paid := 199999 / 200, s_balance := 1 / 200, s_paymentStatus := Paid\<rparr>"

text \<open>Updates of the payments of the worked ledger: payment 1 with the allocation list
  it has; payment 1 with 1200 for sale A; payment 2 (in \<open>dbC\<close>) with 400 and then 50 for
  sale A.\<close>

definition sameAgain :: updatePaymentBody where
  "sameAgain = \<lparr>up_amount = Some 600, up_sales = [alloc600]\<rparr>"

definition over1200 :: updatePaymentBody where
  "over1200 = \<lparr>up_amount = None, up_sales = [\<lparr>a_sale = 1, a_amount = 1200\<rparr>]\<rparr>"

definition payOver :: payment where
  "payOver = pay600\<lparr>p_sales := [\<lparr>a_sale = 1, a_amount = 1200\<rparr>], p_totalAllocated := 1200\<rparr>"

definition saleOver :: sale where
  "saleOver = saleA\<lparr>s_paid := 1200, s_balance := - 200, s_paymentStatus := Overpaid\<rparr>"

definition dbOver :: db where
  "dbOver = \<lparr>customers = [(1, \<lparr>creditLimit = 0, outstandingAmount = 2200, totalPurchase = 1000\<rparr>)],
          products = [(1, \<lparr>stock_current = 9\<rparr>)], sales = [(1, saleOver)],
          payments = [(1, payOver)]\<rparr>"

definition settled450 :: updatePaymentBody where
  "settled450 = \<lparr>up_amount = None,
     up_sales = [\<lparr>a_sale = 1, a_amount = 400\<rparr>, \<lparr>a_sale = 1, a_amount = 50\<rparr>]\<rparr>"

text \<open>The database after the allocation of \<open>pay500\<close> is reversed in \<open>dbC\<close>.\<close>

definition dbCrev :: db where
  "dbCrev = \<lparr>customers = [(1, \<lparr>creditLimit = 0, outstandingAmount = 2200, totalPurchase = 1000\<rparr>)],
          products = [(1, \<lparr>stock_current = 9\<rparr>)], sales = [(1, saleA600)],
          payments = [(1, pay600), (2, pay500)]\<rparr>"

section \<open>Reading the stored aggregate\<close>

text \<open>The outstanding amount a customer document holds, if the customer exists.\<close>

definition storedOutstanding :: "db \<Rightarrow> oid \<Rightarrow> rat option" where
  "storedOutstanding st cid = map_option outstandingAmount (map_of (customers st) cid)"

text \<open>What the post-save hook adds for a sale.\<close>

definition hookAmount :: "sale \<Rightarrow> rat" where
  "hookAmount s = (if s_status s = Completed \<and> 0 < s_balance s then s_balance s else 0)"

section \<open>An invariant of the stored sales\<close>

text \<open>The stored balance of a sale is within the tolerance of \<open>total - paid\<close>.\<close>

definition balanceNear :: "sale \<Rightarrow> bool" where
  "balanceNear s \<longleftrightarrow> \<bar>s_balance s - (s_total s - s_paid s)\<bar> < tolerance"

text \<open>Every stored sale passes the schema's validators and has its balance near
  \<open>total - paid\<close>.\<close>

definition ledgerOk :: "db \<Rightarrow> bool" where
  "ledgerOk st \<longleftrightarrow> list_all (\<lambda>(sid, s). saleValid s \<and> balanceNear s) (sales st)"

section \<open>Basic facts about the model operations\<close>

lemma sales_customerInc [simp]: "sales (customerInc c dp d st) = sales st"
  by (simp add: customerInc_def split: option.splits)

lemma products_customerInc [simp]: "products (customerInc c dp d st) = products st"
  by (simp add: customerInc_def split: option.splits)

lemma payments_customerInc [simp]: "payments (customerInc c dp d st) = payments st"
  by (simp add: customerInc_def split: option.splits)

lemma map_of_customerInc:
  "map_of (customers (customerInc c dp d st)) c' =
     (if c' = c
      then map_option (\<lambda>cu. cu\<lparr>totalPurchase := totalPurchase cu + dp,
                                outstandingAmount := outstandingAmount cu + d\<rparr>)
             (map_of (customers st) c)
      else map_of (customers st) c')"
  by (simp add: customerInc_def update_conv' split: option.splits)

lemma sales_postSave [simp]: "sales (postSave s st) = sales st"
  by (simp add: postSave_def)

lemma products_postSave [simp]: "products (postSave s st) = products st"
  by (simp add: postSave_def)

lemma payments_postSave [simp]: "payments (postSave s st) = payments st"
  by (simp add: postSave_def)

lemma saleSave_SomeD:
  "saleSave sid s st = Some st' \<Longrightarrow>
     saleValid s \<and> st' = postSave s (st\<lparr>sales := AList.update sid s (sales st)\<rparr>)"
  by (auto simp: saleSave_def split: if_splits)

lemma sales_saleSave:
  "saleSave sid s st = Some st' \<Longrightarrow> sales st' = AList.update sid s (sales st)"
  by (auto dest: saleSave_SomeD)

lemma map_of_sales_saleSave:
  "saleSave sid s st = Some st' \<Longrightarrow> map_of (sales st') sid = Some s"
  by (simp add: sales_saleSave update_conv')

lemma foldl_add_sum_list: "foldl (\<lambda>acc x. acc + f x) a xs = a + sum_list (map f xs)"
  by (induction xs arbitrary: a) (simp_all add: add.assoc)

subsection \<open>What a successful handler did\<close>

lemma createSale_InrD:
  assumes "createSale b st = (Inr (sid, s), st')"
  shows "s_paymentStatus s = paymentStatusOf (s_total s - s_paid s) (s_paid s)"
    and "s_balance s = snapBalance (s_total s - s_paid s)"
    and "s_status s = Completed"
    and "s_customer s = cs_customer b"
  using assms
  by (auto simp: createSale_def Let_def split: if_splits option.splits sum.splits prod.splits)

lemma rebalance_simps [simp]:
  "s_paymentStatus (rebalance s) = paymentStatusOf (snapBalance (s_total s - s_paid s)) (s_paid s)"
  "s_balance (rebalance s) = snapBalance (s_total s - s_paid s)"
  "s_total (rebalance s) = s_total s" "s_paid (rebalance s) = s_paid s"
  "s_customer (rebalance s) = s_customer s" "s_status (rebalance s) = s_status s"
  by (simp_all add: rebalance_def Let_def)

lemma updateSale_InrD:
  assumes "updateSale sid b st = (Inr s, st')"
  shows "s_paymentStatus s = paymentStatusOf (snapBalance (s_total s - s_paid s)) (s_paid s)"
    and "s_balance s = snapBalance (s_total s - s_paid s)"
  using assms
  by (auto simp: updateSale_def Let_def split: if_splits option.splits)

lemma allocateOne_InrD:
  assumes "allocateOne a st = (Inr r, st')"
  obtains s st1 where "map_of (sales st) (a_sale a) = Some s" "0 < s_balance s"
    "r = \<lparr>a_sale = a_sale a, a_amount = min (a_amount a) (s_balance s)\<rparr>"
    "saleSave (a_sale a)
       (s\<lparr>s_paid := s_paid s + a_amount r, s_balance := s_balance s - a_amount r,
          s_paymentStatus := paymentStatusOf (s_balance s - a_amount r) (s_paid s + a_amount r)\<rparr>) st
     = Some st1"
    "st' = customerInc (s_customer s) 0 (- a_amount r) st1"
  using assms
  by (auto simp: allocateOne_def Let_def split: if_splits option.splits)

lemma reapplyOne_InrD:
  assumes "reapplyOne a st = (Inr r, st')"
  obtains s st1 where "map_of (sales st) (a_sale a) = Some s"
    "r = \<lparr>a_sale = a_sale a, a_amount = a_amount a\<rparr>"
    "saleSave (a_sale a)
       (s\<lparr>s_paid := s_paid s + a_amount a, s_balance := s_balance s - a_amount a,
          s_paymentStatus := paymentStatusOf (s_balance s - a_amount a) (s_paid s + a_amount a)\<rparr>) st
     = Some st1"
    "st' = customerInc (s_customer s) 0 (- a_amount a) st1"
  using assms
  by (auto simp: reapplyOne_def Let_def split: if_splits option.splits)

lemma reverseOne_SomeD:
  assumes "reverseOne a st = Some st'" "map_of (sales st) (a_sale a) = Some s"
  obtains st1 where
    "saleSave (a_sale a)
       (s\<lparr>s_paid := s_paid s - a_amount a, s_balance := s_balance s + a_amount a,
          s_paymentStatus := paymentStatusOf (s_balance s + a_amount a) (s_paid s - a_amount a)\<rparr>) st
     = Some st1"
    "st' = customerInc (s_customer s) 0 (a_amount a) st1"
  using assms
  by (auto simp: reverseOne_def Let_def split: if_splits option.splits)

subsection \<open>The worked ledger, evaluated\<close>

lemma createSale_body1000: "createSale body1000 db0 = (Inr (1, saleA), dbA)"
  by code_simp

lemma createPayment_payBody600: "createPayment payBody600 dbA = (Inr (1, pay600), dbB)"
  by code_simp

lemma updateSale_paid600: "updateSale 1 paid600 dbA = (Inr saleA600, dbU)"
  by code_simp

lemma allocateOne_alloc600: "allocateOne alloc600 dbA = (Inr alloc600, dbU)"
  by code_simp

lemma reverseOne_alloc600: "reverseOne alloc600 dbB = Some dbR"
  by code_simp

lemma reapplyOne_alloc600: "reapplyOne alloc600 dbA = (Inr alloc600, dbU)"
  by code_simp

lemma createSale_bodyCent: "fst (createSale bodyCent db0) = Inr (1, saleCent)"
  by code_simp

section \<open>The payment status\<close>

lemma tolerance_bounds:
  "0 < toleranceUlp" "tolerance - toleranceUlp < tolerance" "0 < tolerance - toleranceUlp"
  "6 / 1000 \<le> tolerance - toleranceUlp" "tolerance \<le> 19 / 1000"
  by (simp_all add: tolerance_def toleranceUlp_def)

lemma statusByRule_paymentStatusOf: "statusByRule bal pd (paymentStatusOf bal pd)"
  using tolerance_bounds(1,3) by (auto simp: statusByRule_def paymentStatusOf_def)

lemma statusByRule_snap: "statusByRule bal pd (paymentStatusOf (snapBalance bal) pd)"
  using tolerance_bounds(1,3) by (auto simp: statusByRule_def paymentStatusOf_def snapBalance_def)

lemma paymentStatusOf_snap: "paymentStatusOf (snapBalance bal) pd = paymentStatusOf bal pd"
  using tolerance_bounds(1,3) by (auto simp: paymentStatusOf_def snapBalance_def)

text \<open>
  The rule at decimal amounts one hundredth apart, which no double holds exactly: of
  1000 with 999.99 paid and of 10 with 9.99 paid the difference is a little under the
  double 0.01 (paid, balance 0), of 100 with 99.99 paid a little over (partial), and of
  0 with 0.01 paid it is the double itself (partial, not overpaid). Each of these
  differences is a double, so the subtraction does not round.
\<close>

lemma createSale_at_doubles:
  "balanceAndStatus (createSale (bodyOf 1000 dbl999_99) db0) = Some (0, Paid)"
  "balanceAndStatus (createSale (bodyOf 10 dbl9_99) db0) = Some (0, Paid)"
  "balanceAndStatus (createSale (bodyOf 100 dbl99_99) db0) = Some (100 - dbl99_99, Partial)"
  "balanceAndStatus (createSale (bodyOf 0 tolerance) db0) = Some (- tolerance, Partial)"
  by code_simp+

text \<open>
  C2, as the code has it. In sale creation and in sale update the status stored with a
  sale follows the rule with strict bounds (\<^const>\<open>statusByRule\<close>) on \<open>total - paid\<close>
  of the stored sale, whichever way the subtraction rounds; the same total and paid
  amount give the same status in both. A difference within a thousandth of 0.005 is
  paid, one within a thousandth of 0.02 with something paid is partial.
\<close>

theorem paymentStatus_follows_rule:
  "(createSale cb st = (Inr (sid, s), st') \<longrightarrow>
      statusByRule (s_total s - s_paid s) (s_paid s) (s_paymentStatus s)) \<and>
   (updateSale sid ub st = (Inr s, st') \<longrightarrow>
      statusByRule (s_total s - s_paid s) (s_paid s) (s_paymentStatus s)) \<and>
   (createSale cb st = (Inr (sid, s), st') \<and> updateSale sid2 ub st2 = (Inr s2, st2') \<and>
    s_total s2 = s_total s \<and> s_paid s2 = s_paid s \<longrightarrow>
      s_paymentStatus s2 = s_paymentStatus s) \<and>
   ((createSale cb st = (Inr (sid, s), st') \<or> updateSale sid ub st = (Inr s, st')) \<and>
    \<bar>s_total s - s_paid s - 5 / 1000\<bar> \<le> 1 / 1000 \<longrightarrow>
      s_paymentStatus s = Paid) \<and>
   ((createSale cb st = (Inr (sid, s), st') \<or> updateSale sid ub st = (Inr s, st')) \<and>
    \<bar>s_total s - s_paid s - 2 / 100\<bar> \<le> 1 / 1000 \<and> 0 < s_paid s \<longrightarrow>
      s_paymentStatus s = Partial)"
proof (intro conjI impI)
  assume "createSale cb st = (Inr (sid, s), st')"
  then show "statusByRule (s_total s - s_paid s) (s_paid s) (s_paymentStatus s)"
    by (simp add: createSale_InrD(1) statusByRule_paymentStatusOf)
next
  assume "updateSale sid ub st = (Inr s, st')"
  then show "statusByRule (s_total s - s_paid s) (s_paid s) (s_paymentStatus s)"
    by (simp add: updateSale_InrD(1) statusByRule_snap)
next
  assume h: "createSale cb st = (Inr (sid, s), st') \<and> updateSale sid2 ub st2 = (Inr s2, st2') \<and>
    s_total s2 = s_total s \<and> s_paid s2 = s_paid s"
  then have "s_paymentStatus s = paymentStatusOf (s_total s - s_paid s) (s_paid s)"
    and "s_paymentStatus s2 = paymentStatusOf (snapBalance (s_total s - s_paid s)) (s_paid s)"
    using createSale_InrD(1) updateSale_InrD(1) by fastforce+
  then show "s_paymentStatus s2 = s_paymentStatus s"
    by (simp add: paymentStatusOf_snap)
next
  assume h: "(createSale cb st = (Inr (sid, s), st') \<or> updateSale sid ub st = (Inr s, st')) \<and>
    \<bar>s_total s - s_paid s - 5 / 1000\<bar> \<le> 1 / 1000"
  then have st: "s_paymentStatus s = paymentStatusOf (s_total s - s_paid s) (s_paid s)"
    using createSale_InrD(1) updateSale_InrD(1) paymentStatusOf_snap by metis
  have "\<bar>s_total s - s_paid s\<bar> < tolerance"
    using h tolerance_bounds(2,4) by linarith
  with st show "s_paymentStatus s = Paid"
    by (simp add: paymentStatusOf_def)
next
  assume h: "(createSale cb st = (Inr (sid, s), st') \<or> updateSale sid ub st = (Inr s, st')) \<and>
    \<bar>s_total s - s_paid s - 2 / 100\<bar> \<le> 1 / 1000 \<and> 0 < s_paid s"
  then have st: "s_paymentStatus s = paymentStatusOf (s_total s - s_paid s) (s_paid s)"
    using createSale_InrD(1) updateSale_InrD(1) paymentStatusOf_snap by metis
  have "tolerance \<le> s_total s - s_paid s"
    using h tolerance_bounds(5) by linarith
  with st h tolerance_bounds(1,3) show "s_paymentStatus s = Partial"
    by (auto simp: paymentStatusOf_def)
qed

text \<open>
  The rule at work on the worked ledger: sale A as created (pending); after an update
  that sets \<open>paid\<close> to 600 (partial, as a sale created with 600 paid); created with the
  doubles 999.99 and 999.995 paid (paid, balance 0) and with 999.98 paid (partial);
  updated to 999.995 paid (paid).
\<close>

theorem paymentStatus_follows_rule_witness:
  "createSale body1000 db0 = (Inr (1, saleA), dbA) \<and>
   statusByRule (s_total saleA - s_paid saleA) (s_paid saleA) (s_paymentStatus saleA) \<and>
   s_paymentStatus saleA = Pending \<and>
   updateSale 1 paid600 dbA = (Inr saleA600, dbU) \<and>
   statusByRule (s_total saleA600 - s_paid saleA600) (s_paid saleA600) (s_paymentStatus saleA600) \<and>
   fst (createSale (body1000\<lparr>cs_paid := Some 600\<rparr>) db0) = Inr (1, saleA600) \<and>
   s_paymentStatus saleA600 = Partial \<and>
   fst (createSale (body1000\<lparr>cs_paid := Some dbl999_99\<rparr>) db0) =
     Inr (1, saleA\<lparr>s_paid := dbl999_99, s_balance := 0, s_paymentStatus := Paid\<rparr>) \<and>
   fst (createSale (body1000\<lparr>cs_paid := Some dbl999_995\<rparr>) db0) =
     Inr (1, saleA\<lparr>s_paid := dbl999_995, s_balance := 0, s_paymentStatus := Paid\<rparr>) \<and>
   fst (createSale (body1000\<lparr>cs_paid := Some dbl999_98\<rparr>) db0) =
     Inr (1, saleA\<lparr>s_paid := dbl999_98, s_balance := 1000 - dbl999_98,
                   s_paymentStatus := Partial\<rparr>) \<and>
   fst (updateSale 1 (paid600\<lparr>us_paid := Some dbl999_995\<rparr>) dbA) =
     Inr (saleA\<lparr>s_paid := dbl999_995, s_balance := 0, s_paymentStatus := Paid\<rparr>)"
proof -
  note rule = paymentStatus_follows_rule
  let ?s99 = "saleA\<lparr>s_paid := dbl999_99, s_balance := 0, s_paymentStatus := paymentStatusOf
      (1000 - dbl999_99) dbl999_99\<rparr>"
  let ?s995 = "saleA\<lparr>s_paid := dbl999_995, s_balance := 0, s_paymentStatus := paymentStatusOf
      (1000 - dbl999_995) dbl999_995\<rparr>"
  let ?s98 = "saleA\<lparr>s_paid := dbl999_98, s_balance := 1000 - dbl999_98,
      s_paymentStatus := paymentStatusOf (1000 - dbl999_98) dbl999_98\<rparr>"
  have c600: "fst (createSale (body1000\<lparr>cs_paid := Some 600\<rparr>) db0) = Inr (1, saleA600)"
    by code_simp
  have c99: "fst (createSale (body1000\<lparr>cs_paid := Some dbl999_99\<rparr>) db0) = Inr (1, ?s99)"
    by code_simp
  have c995: "fst (createSale (body1000\<lparr>cs_paid := Some dbl999_995\<rparr>) db0) = Inr (1, ?s995)"
    by code_simp
  have c98: "fst (createSale (body1000\<lparr>cs_paid := Some dbl999_98\<rparr>) db0) = Inr (1, ?s98)"
    by code_simp
  have u995: "fst (updateSale 1 (paid600\<lparr>us_paid := Some dbl999_995\<rparr>) dbA) = Inr ?s995"
    by code_simp
  have run: "f x = (fst (f x), snd (f x))" for f :: "db \<Rightarrow> 'a response" and x
    by simp
  have near: "\<bar>1000 - dbl999_99\<bar> \<le> tolerance - toleranceUlp"
    "\<bar>1000 - dbl999_995 - 5 / 1000\<bar> \<le> 1 / 1000" "\<bar>1000 - dbl999_98 - 2 / 100\<bar> \<le> 1 / 1000"
    "0 < dbl999_98"
    by (simp_all add: dbl999_99_def dbl999_995_def dbl999_98_def tolerance_def toleranceUlp_def)
  have tot: "s_total saleA = 1000"
    by (simp add: saleA_def)
  have 1: "statusByRule (s_total saleA - s_paid saleA) (s_paid saleA) (s_paymentStatus saleA)"
    using rule [where cb = body1000 and st = db0 and sid = 1 and s = saleA and st' = dbA]
      createSale_body1000 by blast
  have 2: "statusByRule (s_total saleA600 - s_paid saleA600) (s_paid saleA600)
      (s_paymentStatus saleA600)"
    using rule [where ub = paid600 and st = dbA and sid = 1 and s = saleA600 and st' = dbU]
      updateSale_paid600 by blast
  have "statusByRule (s_total ?s99 - s_paid ?s99) (s_paid ?s99) (s_paymentStatus ?s99)"
    using rule [where cb = "body1000\<lparr>cs_paid := Some dbl999_99\<rparr>" and st = db0 and sid = 1
        and s = "?s99" and st' = "snd (createSale (body1000\<lparr>cs_paid := Some dbl999_99\<rparr>) db0)"]
      c99 run [of "createSale (body1000\<lparr>cs_paid := Some dbl999_99\<rparr>)" db0]
    by metis
  then have p99: "paymentStatusOf (1000 - dbl999_99) dbl999_99 = Paid"
    using near(1) tot by (simp add: statusByRule_def)
  have p995: "paymentStatusOf (1000 - dbl999_995) dbl999_995 = Paid"
    using rule [where cb = "body1000\<lparr>cs_paid := Some dbl999_995\<rparr>" and st = db0 and sid = 1
        and s = "?s995" and st' = "snd (createSale (body1000\<lparr>cs_paid := Some dbl999_995\<rparr>) db0)"]
      c995 run [of "createSale (body1000\<lparr>cs_paid := Some dbl999_995\<rparr>)" db0] near(2) tot
    by simp
  have p98: "paymentStatusOf (1000 - dbl999_98) dbl999_98 = Partial"
    using rule [where cb = "body1000\<lparr>cs_paid := Some dbl999_98\<rparr>" and st = db0 and sid = 1
        and s = "?s98" and st' = "snd (createSale (body1000\<lparr>cs_paid := Some dbl999_98\<rparr>) db0)"]
      c98 run [of "createSale (body1000\<lparr>cs_paid := Some dbl999_98\<rparr>)" db0] near(3,4) tot
    by simp
  have 5: "s_paymentStatus saleA = Pending" "s_paymentStatus saleA600 = Partial"
    by (simp_all add: saleA_def saleA600_def)
  show ?thesis
    using createSale_body1000 updateSale_paid600 c600 c99 c995 c98 u995 p99 p995 p98 1 2 5
    by simp
qed

text \<open>
  C2 as stated fails at the tolerance itself: a sale of one unit at 0.01 with nothing
  paid has \<open>|total - paid| = \<epsilon>\<close>, for which the claim asks the status paid; the handler
  stores it pending.
\<close>

theorem claimed_status_rule_counterexample:
  "fst (createSale bodyCent db0) = Inr (1, saleCent) \<and>
   \<bar>s_total saleCent - s_paid saleCent\<bar> \<le> tolerance \<and>
   s_paymentStatus saleCent = Pending \<and> s_paymentStatus saleCent \<noteq> Paid"
  using createSale_bodyCent by (simp add: saleCent_def tolerance_def)

section \<open>The customer list\<close>

text \<open>
  C9. getCustomers writes nothing, and each customer object it returns carries, as
  outstandingAmount and totalPurchase, the sums of balance and total over the stored
  sales of that customer that are not cancelled, whatever the customer document holds.
\<close>

theorem getCustomers_serves_recomputed:
  "snd (getCustomers query st) = st \<and>
   (\<exists>objs. fst (getCustomers query st) = Inr objs \<and>
      map fst objs = map fst (query (customers st)) \<and>
      (\<forall>i < length objs.
         outstandingAmount (snd (objs ! i)) =
           sum_list (map s_balance
             [s \<leftarrow> map snd (sales st). s_customer s = fst (objs ! i) \<and> s_status s \<noteq> Cancelled]) \<and>
         totalPurchase (snd (objs ! i)) =
           sum_list (map s_total
             [s \<leftarrow> map snd (sales st). s_customer s = fst (objs ! i) \<and> s_status s \<noteq> Cancelled])))"
  by (auto simp: getCustomers_def withCalculatedOutstanding_def salesOfCustomer_def Let_def
      foldl_add_sum_list filter_map comp_def case_prod_unfold)

text \<open>
  On the worked ledger after sale A the customer document holds an outstanding amount
  of 2000; the list serves 1000, the balance of A, and leaves the document alone.
\<close>

theorem getCustomers_serves_recomputed_witness:
  "snd (getCustomers (\<lambda>cs. cs) dbA) = dbA \<and>
   fst (getCustomers (\<lambda>cs. cs) dbA) =
     Inr [(1, \<lparr>creditLimit = 0, outstandingAmount = 1000, totalPurchase = 1000,
               calculatedOutstanding = 1000\<rparr>)] \<and>
   map (outstandingAmount \<circ> snd) (customers dbA) = [2000] \<and>
   sum_list (map s_balance
     [s \<leftarrow> map snd (sales dbA). s_customer s = 1 \<and> s_status s \<noteq> Cancelled]) = 1000"
proof -
  have served: "fst (getCustomers (\<lambda>cs. cs) dbA) =
     Inr [(1, \<lparr>creditLimit = 0, outstandingAmount = 1000, totalPurchase = 1000,
               calculatedOutstanding = 1000\<rparr>)]"
    by code_simp
  have stored: "map (outstandingAmount \<circ> snd) (customers dbA) = [2000]"
    by (simp add: dbA_def)
  from getCustomers_serves_recomputed [of "\<lambda>cs. cs" dbA] obtain objs where
    same: "snd (getCustomers (\<lambda>cs. cs) dbA) = dbA" and
    objs: "fst (getCustomers (\<lambda>cs. cs) dbA) = Inr objs" and
    sums: "\<forall>i < length objs. outstandingAmount (snd (objs ! i)) =
           sum_list (map s_balance
             [s \<leftarrow> map snd (sales dbA). s_customer s = fst (objs ! i) \<and> s_status s \<noteq> Cancelled])"
    by blast
  from objs served have "objs = [(1, \<lparr>creditLimit = 0, outstandingAmount = 1000,
      totalPurchase = 1000, calculatedOutstanding = 1000\<rparr>)]"
    by simp
  with sums have "sum_list (map s_balance
     [s \<leftarrow> map snd (sales dbA). s_customer s = 1 \<and> s_status s \<noteq> Cancelled]) = 1000"
    by simp
  with same served stored show ?thesis
    by simp
qed

section \<open>Payment allocation\<close>

lemma allocateAll_append:
  "allocateAll (xs @ ys) acc st =
     (case allocateAll xs acc st of
        (Inl e, st1) \<Rightarrow> (Inl e, st1)
      | (Inr acc1, st1) \<Rightarrow> allocateAll ys acc1 st1)"
  by (induction xs arbitrary: acc st) (auto split: prod.splits sum.splits)

lemma allocateAll_acc:
  "allocateAll xs acc st = (Inr res, st') \<Longrightarrow>
     \<exists>recs. res = (fst acc @ recs, snd acc + sum_list (map a_amount recs)) \<and>
            length recs = length xs"
proof (induction xs arbitrary: acc st)
  case Nil
  then show ?case by (cases acc) auto
next
  case (Cons a xs)
  then obtain r st1 where
    one: "allocateOne a st = (Inr r, st1)" and
    rest: "allocateAll xs (fst acc @ [r], snd acc + a_amount r) st1 = (Inr res, st')"
    by (auto split: prod.splits sum.splits)
  from Cons.IH [OF rest] obtain recs where
    "res = ((fst acc @ [r]) @ recs, snd acc + a_amount r + sum_list (map a_amount recs))"
    "length recs = length xs"
    by auto
  then have "res = (fst acc @ (r # recs), snd acc + sum_list (map a_amount (r # recs))) \<and>
      length (r # recs) = length (a # xs)"
    by (simp add: add.assoc)
  then show ?case by blast
qed

lemma allocateAll_prefix:
  assumes "allocateAll xs acc st = (Inr res, st')" "i < length xs"
  shows "\<exists>acc_i st_i r st_j. allocateAll (take i xs) acc st = (Inr acc_i, st_i) \<and>
           allocateOne (xs ! i) st_i = (Inr r, st_j) \<and>
           allocateAll (drop (Suc i) xs) (fst acc_i @ [r], snd acc_i + a_amount r) st_j = (Inr res, st')"
proof -
  have split: "xs = take i xs @ (xs ! i # drop (Suc i) xs)"
    using assms(2) by (simp add: id_take_nth_drop)
  have "allocateAll (take i xs @ (xs ! i # drop (Suc i) xs)) acc st = (Inr res, st')"
    using assms(1) split by simp
  then show ?thesis
    by (auto simp: allocateAll_append split: prod.splits sum.splits)
qed

lemma fold_max_ge: "a \<le> fold max xs a \<and> (\<forall>x\<in>set xs. x \<le> fold max xs (a::nat))"
proof (induction xs arbitrary: a)
  case Nil
  then show ?case by simp
next
  case (Cons y ys)
  have "max y a \<le> fold max ys (max y a)" and "\<forall>x\<in>set ys. x \<le> fold max ys (max y a)"
    using Cons.IH [of "max y a"] by blast+
  then show ?case by auto
qed

lemma map_of_newId: "map_of al (newId al) = None"
proof -
  have "\<forall>k\<in>set (map fst al). k < newId al"
    using fold_max_ge [of 0 "map fst al"] by (auto simp: newId_def less_Suc_eq_le)
  then have "newId al \<notin> fst ` set al"
    by auto
  then show ?thesis
    by (simp add: map_of_eq_None_iff)
qed

lemma payments_allocateOne: "payments (snd (allocateOne a st)) = payments st"
  by (auto simp: allocateOne_def Let_def saleSave_def split: option.splits)

lemma payments_allocateAll: "payments (snd (allocateAll xs acc st)) = payments st"
proof (induction xs arbitrary: acc st)
  case Nil
  then show ?case by simp
next
  case (Cons a xs)
  show ?case
    using Cons.IH payments_allocateOne [of a st]
    by (auto split: prod.splits sum.splits)
qed

lemma allocateOne_sales:
  assumes "allocateOne a st = (Inr r, st')" "map_of (sales st) (a_sale a) = Some s"
  shows "map_of (sales st') k =
     (if k = a_sale a
      then Some (s\<lparr>s_paid := s_paid s + a_amount r, s_balance := s_balance s - a_amount r,
                   s_paymentStatus :=
                     paymentStatusOf (s_balance s - a_amount r) (s_paid s + a_amount r)\<rparr>)
      else map_of (sales st) k)"
  using assms
  by (auto elim!: allocateOne_InrD dest!: saleSave_SomeD simp: update_conv')

text \<open>
  C6. A payment that createPayment stores has one recorded allocation per requested
  one, in the same order. At position \<open>i\<close> the loop has reached the state \<open>st_i\<close>, in
  which the sale has the balance \<open>s_balance s_i\<close>; the amount recorded is the smaller of
  the requested amount and that balance, and it is the amount applied: in the next
  state \<open>st_j\<close> the sale has it added to \<open>paid\<close> and taken off \<open>balance\<close>, with the status
  of the new balance, and no other sale has changed. The sales, customers and products
  of the final state are those the loop leaves. The payment is stored under an id that
  was free, beside the payments there were; its totalAllocated is the sum of the
  recorded amounts, and its remainingAmount is the payment's amount less that sum.
\<close>

theorem createPayment_records_clamped:
  assumes "createPayment b st = (Inr (pid, p), st')"
  shows "length (p_sales p) = length (cp_sales b) \<and>
     (\<forall>i < length (cp_sales b).
        \<exists>acc_i st_i s_i acc_j st_j.
          allocateAll (take i (cp_sales b)) ([], 0) st = (Inr acc_i, st_i) \<and>
          map_of (sales st_i) (a_sale (cp_sales b ! i)) = Some s_i \<and>
          p_sales p ! i = \<lparr>a_sale = a_sale (cp_sales b ! i),
                            a_amount = min (a_amount (cp_sales b ! i)) (s_balance s_i)\<rparr> \<and>
          allocateAll (take (Suc i) (cp_sales b)) ([], 0) st = (Inr acc_j, st_j) \<and>
          map_of (sales st_j) (a_sale (cp_sales b ! i)) =
            Some (s_i\<lparr>s_paid := s_paid s_i + a_amount (p_sales p ! i),
                      s_balance := s_balance s_i - a_amount (p_sales p ! i),
                      s_paymentStatus :=
                        paymentStatusOf (s_balance s_i - a_amount (p_sales p ! i))
                          (s_paid s_i + a_amount (p_sales p ! i))\<rparr>) \<and>
          (\<forall>k. k \<noteq> a_sale (cp_sales b ! i) \<longrightarrow>
             map_of (sales st_j) k = map_of (sales st_i) k)) \<and>
     (\<exists>acc_n st_n.
        allocateAll (cp_sales b) ([], 0) st = (Inr acc_n, st_n) \<and>
        sales st' = sales st_n \<and> customers st' = customers st_n \<and>
        products st' = products st_n) \<and>
     map_of (payments st) pid = None \<and>
     map_of (payments st') pid = Some p \<and>
     (\<forall>q. q \<noteq> pid \<longrightarrow> map_of (payments st') q = map_of (payments st) q) \<and>
     p_totalAllocated p = sum_list (map a_amount (p_sales p)) \<and>
     p_amount p = cp_amount b \<and>
     remainingAmount p = cp_amount b - sum_list (map a_amount (p_sales p))"
proof -
  from assms obtain recorded tot st1 where
    loop: "allocateAll (cp_sales b) ([], 0) st = (Inr (recorded, tot), st1)" and
    p: "p = \<lparr>p_customer = cp_customer b, p_amount = cp_amount b, p_sales = recorded,
             p_totalAllocated = tot\<rparr>" and
    pid: "pid = newId (payments st1)" and
    st': "st' = st1\<lparr>payments := AList.update pid p (payments st1)\<rparr>"
    by (auto simp: createPayment_def Let_def paymentSave_def
        split: if_splits option.splits prod.splits sum.splits)
  from allocateAll_acc [OF loop] have
    tot: "tot = sum_list (map a_amount recorded)" and len: "length recorded = length (cp_sales b)"
    by auto
  have pays: "payments st1 = payments st"
    using payments_allocateAll [of "cp_sales b" "([], 0)" st] loop by simp
  have each: "\<exists>acc_i st_i s_i acc_j st_j.
          allocateAll (take i (cp_sales b)) ([], 0) st = (Inr acc_i, st_i) \<and>
          map_of (sales st_i) (a_sale (cp_sales b ! i)) = Some s_i \<and>
          recorded ! i = \<lparr>a_sale = a_sale (cp_sales b ! i),
                           a_amount = min (a_amount (cp_sales b ! i)) (s_balance s_i)\<rparr> \<and>
          allocateAll (take (Suc i) (cp_sales b)) ([], 0) st = (Inr acc_j, st_j) \<and>
          map_of (sales st_j) (a_sale (cp_sales b ! i)) =
            Some (s_i\<lparr>s_paid := s_paid s_i + a_amount (recorded ! i),
                      s_balance := s_balance s_i - a_amount (recorded ! i),
                      s_paymentStatus :=
                        paymentStatusOf (s_balance s_i - a_amount (recorded ! i))
                          (s_paid s_i + a_amount (recorded ! i))\<rparr>) \<and>
          (\<forall>k. k \<noteq> a_sale (cp_sales b ! i) \<longrightarrow>
             map_of (sales st_j) k = map_of (sales st_i) k)"
    if i: "i < length (cp_sales b)" for i
  proof -
    from allocateAll_prefix [OF loop i] obtain acc_i st_i r st_j where
      pre: "allocateAll (take i (cp_sales b)) ([], 0) st = (Inr acc_i, st_i)" and
      one: "allocateOne (cp_sales b ! i) st_i = (Inr r, st_j)" and
      post: "allocateAll (drop (Suc i) (cp_sales b)) (fst acc_i @ [r], snd acc_i + a_amount r) st_j
               = (Inr (recorded, tot), st1)"
      by blast
    from allocateAll_acc [OF pre] i have li: "length (fst acc_i) = i"
      by auto
    from allocateAll_acc [OF post] obtain recs where "recorded = (fst acc_i @ [r]) @ recs"
      by auto
    with li have ri: "recorded ! i = r"
      by (simp add: nth_append)
    from one obtain s_i where s_i: "map_of (sales st_i) (a_sale (cp_sales b ! i)) = Some s_i"
      and r: "r = \<lparr>a_sale = a_sale (cp_sales b ! i),
            a_amount = min (a_amount (cp_sales b ! i)) (s_balance s_i)\<rparr>"
      by (auto elim!: allocateOne_InrD)
    have next_state: "allocateAll (take (Suc i) (cp_sales b)) ([], 0) st =
        (Inr (fst acc_i @ [r], snd acc_i + a_amount r), st_j)"
      using pre one i by (simp add: take_Suc_conv_app_nth allocateAll_append)
    note after = allocateOne_sales [OF one s_i]
    have a1: "map_of (sales st_j) (a_sale (cp_sales b ! i)) =
            Some (s_i\<lparr>s_paid := s_paid s_i + a_amount r,
                      s_balance := s_balance s_i - a_amount r,
                      s_paymentStatus :=
                        paymentStatusOf (s_balance s_i - a_amount r) (s_paid s_i + a_amount r)\<rparr>)"
      and a2: "\<forall>k. k \<noteq> a_sale (cp_sales b ! i) \<longrightarrow> map_of (sales st_j) k = map_of (sales st_i) k"
      using after by simp_all
    from pre s_i r next_state a1 a2 show ?thesis
      unfolding ri by blast
  qed
  have fresh: "map_of (payments st) pid = None"
    using pid pays map_of_newId [of "payments st"] by simp
  have stored: "map_of (payments st') pid = Some p"
    and others: "\<forall>q. q \<noteq> pid \<longrightarrow> map_of (payments st') q = map_of (payments st) q"
    using st' pays by (simp_all add: update_conv')
  have final: "\<exists>acc_n st_n.
        allocateAll (cp_sales b) ([], 0) st = (Inr acc_n, st_n) \<and>
        sales st' = sales st_n \<and> customers st' = customers st_n \<and>
        products st' = products st_n"
    using loop st' by auto
  have p_simps: "p_sales p = recorded" "p_totalAllocated p = tot" "p_amount p = cp_amount b"
    using p by simp_all
  show ?thesis
    unfolding p_simps using tot len each fresh stored others final
    by (simp add: remainingAmount_def p_simps)
qed


text \<open>
  Two payments of the worked ledger. The second asks 500 for sale A, which has 400
  left: 400 is recorded and applied, the sale is settled with balance 0, and 100 remains
  on the stored payment. The first asks 600 of a balance of 1000: 600 is recorded and
  applied, the sale keeps a balance of 400, and nothing remains on the payment.
\<close>

theorem createPayment_records_clamped_witness:
  "createPayment payBody500 dbB = (Inr (2, pay500), dbC) \<and>
   map_of (sales dbB) 1 = Some saleA600 \<and> s_balance saleA600 = 400 \<and>
   p_sales pay500 = [\<lparr>a_sale = 1, a_amount = 400\<rparr>] \<and>
   map_of (sales dbC) 1 = Some saleA1000 \<and>
   s_paid saleA1000 = s_paid saleA600 + 400 \<and> s_balance saleA1000 = 0 \<and>
   map_of (payments dbB) 2 = None \<and> map_of (payments dbC) 2 = Some pay500 \<and>
   remainingAmount pay500 = 100 \<and>
   createPayment payBody600 dbA = (Inr (1, pay600), dbB) \<and>
   map_of (sales dbA) 1 = Some saleA \<and> s_balance saleA = 1000 \<and>
   p_sales pay600 = [\<lparr>a_sale = 1, a_amount = 600\<rparr>] \<and>
   s_paid saleA600 = s_paid saleA + 600 \<and> s_balance saleA600 = s_balance saleA - 600 \<and>
   map_of (payments dbA) 1 = None \<and> map_of (payments dbB) 1 = Some pay600 \<and>
   remainingAmount pay600 = 0"
proof -
  have run5: "createPayment payBody500 dbB = (Inr (2, pay500), dbC)"
    by code_simp
  note run6 = createPayment_payBody600
  note all5 = createPayment_records_clamped [OF run5]
  note all6 = createPayment_records_clamped [OF run6]
  have one5: "cp_sales payBody500 = [\<lparr>a_sale = 1, a_amount = 500\<rparr>]"
    and one6: "cp_sales payBody600 = [\<lparr>a_sale = 1, a_amount = 600\<rparr>]"
    by (simp_all add: payBody500_def payBody600_def alloc600_def)
  have before5: "map_of (sales dbB) 1 = Some saleA600"
    and before6: "map_of (sales dbA) 1 = Some saleA"
    by (simp_all add: dbB_def dbA_def)
  have bal: "s_balance saleA600 = 400" "s_balance saleA = 1000"
    by (simp_all add: saleA600_def saleA_def)
  have len5: "0 < length (cp_sales payBody500)"
    and tk5: "take (Suc 0) (cp_sales payBody500) = cp_sales payBody500"
    and nth5: "cp_sales payBody500 ! 0 = \<lparr>a_sale = 1, a_amount = 500\<rparr>"
    by (simp_all add: one5)
  from all5 [THEN conjunct2, THEN conjunct1, rule_format, OF len5]
  obtain acc_i st_i s_i acc_j st_j where
    h1: "allocateAll (take 0 (cp_sales payBody500)) ([], 0) dbB = (Inr acc_i, st_i)" and
    h2: "map_of (sales st_i) (a_sale (cp_sales payBody500 ! 0)) = Some s_i" and
    h3: "p_sales pay500 ! 0 = \<lparr>a_sale = a_sale (cp_sales payBody500 ! 0),
          a_amount = min (a_amount (cp_sales payBody500 ! 0)) (s_balance s_i)\<rparr>" and
    h4: "allocateAll (take (Suc 0) (cp_sales payBody500)) ([], 0) dbB = (Inr acc_j, st_j)" and
    h5: "map_of (sales st_j) (a_sale (cp_sales payBody500 ! 0)) =
        Some (s_i\<lparr>s_paid := s_paid s_i + a_amount (p_sales pay500 ! 0),
                  s_balance := s_balance s_i - a_amount (p_sales pay500 ! 0),
                  s_paymentStatus :=
                    paymentStatusOf (s_balance s_i - a_amount (p_sales pay500 ! 0))
                      (s_paid s_i + a_amount (p_sales pay500 ! 0))\<rparr>)"
    by blast
  from h1 have "st_i = dbB"
    by simp
  with h2 before5 have s_i: "s_i = saleA600"
    by (simp add: nth5)
  note loop5 = h4 [unfolded tk5]
  from h3 have rec5: "a_amount (p_sales pay500 ! 0) = 400"
    by (simp add: nth5 s_i bal)
  note sale5 = h5 [unfolded nth5 s_i rec5]
  from all5 loop5 have "sales dbC = sales st_j"
    by auto
  with sale5 have after5: "map_of (sales dbC) 1 =
      Some (saleA600\<lparr>s_paid := s_paid saleA600 + 400, s_balance := 0,
                s_paymentStatus := paymentStatusOf 0 (s_paid saleA600 + 400)\<rparr>)"
    by (simp add: bal)
  have st5: "paymentStatusOf 0 (s_paid saleA600 + 400) = Paid"
    by (simp add: paymentStatusOf_def tolerance_def)
  have eq5: "saleA600\<lparr>s_paid := s_paid saleA600 + 400, s_balance := 0, s_paymentStatus := Paid\<rparr>
      = saleA1000"
    by (simp add: saleA600_def saleA1000_def saleA_def)
  from all5 have pay5: "map_of (payments dbB) 2 = None" "map_of (payments dbC) 2 = Some pay500"
    "remainingAmount pay500 = cp_amount payBody500 - sum_list (map a_amount (p_sales pay500))"
    by blast+
  from all6 have pay6: "map_of (payments dbA) 1 = None" "map_of (payments dbB) 1 = Some pay600"
    "remainingAmount pay600 = cp_amount payBody600 - sum_list (map a_amount (p_sales pay600))"
    by blast+
  have vals: "p_sales pay500 = [\<lparr>a_sale = 1, a_amount = 400\<rparr>]"
    "p_sales pay600 = [\<lparr>a_sale = 1, a_amount = 600\<rparr>]"
    "cp_amount payBody500 = 500" "cp_amount payBody600 = 600"
    "s_paid saleA1000 = s_paid saleA600 + 400" "s_balance saleA1000 = 0"
    "s_paid saleA600 = s_paid saleA + 600" "s_balance saleA600 = s_balance saleA - 600"
    by (simp_all add: pay500_def pay600_def alloc600_def payBody500_def payBody600_def
        saleA1000_def saleA600_def saleA_def)
  show ?thesis
    using run5 run6 before5 before6 bal after5 st5 eq5 pay5 pay6 vals by simp
qed

lemma allocateOne_InvalidState_iff:
  "fst (allocateOne a st) = Inl InvalidState \<longleftrightarrow>
     (\<exists>s. map_of (sales st) (a_sale a) = Some s \<and> s_balance s \<le> 0)"
  by (auto simp: allocateOne_def Let_def split: option.splits)

lemma allocateOne_Inl_state: "allocateOne a st = (Inl e, st1) \<Longrightarrow> st1 = st"
  by (auto simp: allocateOne_def Let_def split: option.splits if_splits)

lemma allocateAll_Inl_iff:
  "fst (allocateAll xs acc st) = Inl e \<longleftrightarrow>
     (\<exists>i < length xs. \<exists>acc_i st_i.
        allocateAll (take i xs) acc st = (Inr acc_i, st_i) \<and>
        fst (allocateOne (xs ! i) st_i) = Inl e)"
proof (induction xs arbitrary: acc st)
  case Nil
  then show ?case by simp
next
  case (Cons a xs)
  show ?case
  proof (cases "allocateOne a st")
    case (Pair res st1)
    show ?thesis
    proof (cases res)
      case (Inl e')
      have "(\<exists>i < length (a # xs). \<exists>acc_i st_i.
        allocateAll (take i (a # xs)) acc st = (Inr acc_i, st_i) \<and>
        fst (allocateOne ((a # xs) ! i) st_i) = Inl e) \<longleftrightarrow> e' = e"
      proof
        assume "\<exists>i < length (a # xs). \<exists>acc_i st_i.
          allocateAll (take i (a # xs)) acc st = (Inr acc_i, st_i) \<and>
          fst (allocateOne ((a # xs) ! i) st_i) = Inl e"
        then obtain i acc_i st_i where i: "i < length (a # xs)"
          "allocateAll (take i (a # xs)) acc st = (Inr acc_i, st_i)"
          "fst (allocateOne ((a # xs) ! i) st_i) = Inl e"
          by blast
        show "e' = e"
        proof (cases i)
          case 0
          with i Pair Inl show ?thesis by simp
        next
          case (Suc j)
          with i Pair Inl show ?thesis by simp
        qed
      next
        assume "e' = e"
        with Pair Inl have "0 < length (a # xs) \<and>
          allocateAll (take 0 (a # xs)) acc st = (Inr acc, st) \<and>
          fst (allocateOne ((a # xs) ! 0) st) = Inl e"
          by simp
        then show "\<exists>i < length (a # xs). \<exists>acc_i st_i.
          allocateAll (take i (a # xs)) acc st = (Inr acc_i, st_i) \<and>
          fst (allocateOne ((a # xs) ! i) st_i) = Inl e"
          by blast
      qed
      with Pair Inl show ?thesis by simp
    next
      case (Inr r)
      let ?acc1 = "(fst acc @ [r], snd acc + a_amount r)"
      have step: "allocateAll (a # ys) acc st = allocateAll ys ?acc1 st1" for ys
        using Pair Inr by simp
      have "(\<exists>i < length (a # xs). \<exists>acc_i st_i.
        allocateAll (take i (a # xs)) acc st = (Inr acc_i, st_i) \<and>
        fst (allocateOne ((a # xs) ! i) st_i) = Inl e) \<longleftrightarrow>
        (\<exists>j < length xs. \<exists>acc_i st_i.
        allocateAll (take j xs) ?acc1 st1 = (Inr acc_i, st_i) \<and>
        fst (allocateOne (xs ! j) st_i) = Inl e)" (is "?L \<longleftrightarrow> ?R")
      proof
        assume ?L
        then obtain i acc_i st_i where i: "i < length (a # xs)"
          "allocateAll (take i (a # xs)) acc st = (Inr acc_i, st_i)"
          "fst (allocateOne ((a # xs) ! i) st_i) = Inl e"
          by blast
        show ?R
        proof (cases i)
          case 0
          with i Pair Inr show ?thesis by simp
        next
          case (Suc j)
          with i step have "j < length xs \<and> allocateAll (take j xs) ?acc1 st1 = (Inr acc_i, st_i) \<and>
            fst (allocateOne (xs ! j) st_i) = Inl e"
            by simp
          then show ?thesis by blast
        qed
      next
        assume ?R
        then obtain j acc_i st_i where j: "j < length xs"
          "allocateAll (take j xs) ?acc1 st1 = (Inr acc_i, st_i)"
          "fst (allocateOne (xs ! j) st_i) = Inl e"
          by blast
        then have "Suc j < length (a # xs) \<and>
          allocateAll (take (Suc j) (a # xs)) acc st = (Inr acc_i, st_i) \<and>
          fst (allocateOne ((a # xs) ! Suc j) st_i) = Inl e"
          using step by simp
        then show ?L by blast
      qed
      then show ?thesis
        using Cons.IH [of ?acc1 st1] step by simp
    qed
  qed
qed

lemma saleValid_paid:
  "saleValid s \<Longrightarrow> 0 \<le> p \<Longrightarrow>
     saleValid (s\<lparr>s_paid := p, s_balance := bal, s_paymentStatus := ps\<rparr>)"
  by (simp add: saleValid_def)

lemma allocateOne_ok:
  assumes "map_of (sales st) (a_sale a) = Some s" "0 < s_balance s" "saleValid s"
    "0 \<le> s_paid s + min (a_amount a) (s_balance s)"
  shows "\<exists>st'. allocateOne a st =
           (Inr \<lparr>a_sale = a_sale a, a_amount = min (a_amount a) (s_balance s)\<rparr>, st') \<and>
         map_of (sales st') (a_sale a) =
           Some (s\<lparr>s_paid := s_paid s + min (a_amount a) (s_balance s),
                   s_balance := s_balance s - min (a_amount a) (s_balance s),
                   s_paymentStatus :=
                     paymentStatusOf (s_balance s - min (a_amount a) (s_balance s))
                       (s_paid s + min (a_amount a) (s_balance s))\<rparr>)"
  using assms
  by (simp add: allocateOne_def Let_def saleSave_def saleValid_paid update_conv')

text \<open>
  C7. For a request that passes validation and names an existing customer,
  createPayment answers InvalidState exactly when the loop reaches an allocation (all
  allocations before it applied, in the caller's order) whose sale has, in the database
  as those left it, a balance of zero or less; the requested amount plays no part. Two
  allocations to the same sale: when the first takes the whole balance the second is
  refused; when it takes less, the second is clamped to what the first left.
\<close>

theorem createPayment_InvalidState_iff:
  "(createPaymentValidation b \<and> map_of (customers st) (cp_customer b) = Some c \<longrightarrow>
      (fst (createPayment b st) = Inl InvalidState \<longleftrightarrow>
         (\<exists>i < length (cp_sales b). \<exists>acc_i st_i s.
            allocateAll (take i (cp_sales b)) ([], 0) st = (Inr acc_i, st_i) \<and>
            map_of (sales st_i) (a_sale (cp_sales b ! i)) = Some s \<and> s_balance s \<le> 0))) \<and>
   (createPaymentValidation b \<and> map_of (customers st) (cp_customer b) = Some c \<and>
    cp_sales b = [\<lparr>a_sale = k, a_amount = a1\<rparr>, \<lparr>a_sale = k, a_amount = a2\<rparr>] \<and>
    map_of (sales st) k = Some s \<and> saleValid s \<and> 0 < s_balance s \<longrightarrow>
      (s_balance s \<le> a1 \<longrightarrow> fst (createPayment b st) = Inl InvalidState) \<and>
      (a1 < s_balance s \<longrightarrow>
         (\<exists>pid p. fst (createPayment b st) = Inr (pid, p) \<and>
            p_sales p = [\<lparr>a_sale = k, a_amount = a1\<rparr>,
                         \<lparr>a_sale = k, a_amount = min a2 (s_balance s - a1)\<rparr>])))"
proof (intro conjI impI)
  assume h: "createPaymentValidation b \<and> map_of (customers st) (cp_customer b) = Some c"
  have "fst (createPayment b st) = Inl InvalidState \<longleftrightarrow>
      fst (allocateAll (cp_sales b) ([], 0) st) = Inl InvalidState"
    using h by (auto simp: createPayment_def Let_def split: prod.splits sum.splits option.splits)
  then show "fst (createPayment b st) = Inl InvalidState \<longleftrightarrow>
         (\<exists>i < length (cp_sales b). \<exists>acc_i st_i s.
            allocateAll (take i (cp_sales b)) ([], 0) st = (Inr acc_i, st_i) \<and>
            map_of (sales st_i) (a_sale (cp_sales b ! i)) = Some s \<and> s_balance s \<le> 0)"
    by (simp add: allocateAll_Inl_iff allocateOne_InvalidState_iff)
next
  assume h: "createPaymentValidation b \<and> map_of (customers st) (cp_customer b) = Some c \<and>
    cp_sales b = [\<lparr>a_sale = k, a_amount = a1\<rparr>, \<lparr>a_sale = k, a_amount = a2\<rparr>] \<and>
    map_of (sales st) k = Some s \<and> saleValid s \<and> 0 < s_balance s"
  assume full: "s_balance s \<le> a1"
  let ?x1 = "\<lparr>a_sale = k, a_amount = a1\<rparr>"
  have "0 \<le> s_paid s" using h by (simp add: saleValid_def)
  with h full allocateOne_ok [of st ?x1 s] obtain st1 where
    one: "allocateOne ?x1 st = (Inr \<lparr>a_sale = k, a_amount = s_balance s\<rparr>, st1)" and
    s1: "map_of (sales st1) k =
           Some (s\<lparr>s_paid := s_paid s + s_balance s, s_balance := 0,
                   s_paymentStatus := paymentStatusOf 0 (s_paid s + s_balance s)\<rparr>)"
    by (auto simp: min_def)
  have "fst (allocateOne \<lparr>a_sale = k, a_amount = a2\<rparr> st1) = Inl InvalidState"
    using s1 by (simp add: allocateOne_InvalidState_iff)
  then have "fst (allocateAll (cp_sales b) ([], 0) st) = Inl InvalidState"
    using h one by (auto split: prod.splits sum.splits)
  then show "fst (createPayment b st) = Inl InvalidState"
    using h by (auto simp: createPayment_def Let_def split: prod.splits sum.splits option.splits)
next
  assume h: "createPaymentValidation b \<and> map_of (customers st) (cp_customer b) = Some c \<and>
    cp_sales b = [\<lparr>a_sale = k, a_amount = a1\<rparr>, \<lparr>a_sale = k, a_amount = a2\<rparr>] \<and>
    map_of (sales st) k = Some s \<and> saleValid s \<and> 0 < s_balance s"
  assume part: "a1 < s_balance s"
  let ?x1 = "\<lparr>a_sale = k, a_amount = a1\<rparr>" and ?x2 = "\<lparr>a_sale = k, a_amount = a2\<rparr>"
  let ?s1 = "s\<lparr>s_paid := s_paid s + a1, s_balance := s_balance s - a1,
                  s_paymentStatus := paymentStatusOf (s_balance s - a1) (s_paid s + a1)\<rparr>"
  have nn: "0 \<le> a1" "0 \<le> a2" "tolerance \<le> cp_amount b"
    using h by (auto simp: createPaymentValidation_def)
  have pd: "0 \<le> s_paid s" using h by (simp add: saleValid_def)
  with h part nn allocateOne_ok [of st ?x1 s] obtain st1 where
    one: "allocateOne ?x1 st = (Inr ?x1, st1)" and s1: "map_of (sales st1) k = Some ?s1"
    by (auto simp: min_def)
  have v1: "saleValid ?s1"
    using h pd nn by (simp add: saleValid_paid)
  have "0 \<le> s_paid ?s1 + min (a_amount ?x2) (s_balance ?s1)"
    using pd nn part by simp
  with allocateOne_ok [of st1 ?x2 ?s1] s1 v1 part obtain st2 where
    two: "allocateOne ?x2 st1 = (Inr \<lparr>a_sale = k, a_amount = min a2 (s_balance s - a1)\<rparr>, st2)"
    by auto
  have loop: "allocateAll (cp_sales b) ([], 0) st =
      (Inr ([?x1, \<lparr>a_sale = k, a_amount = min a2 (s_balance s - a1)\<rparr>],
            a1 + min a2 (s_balance s - a1)), st2)"
    using h one two by simp
  have "paymentValid \<lparr>p_customer = cp_customer b, p_amount = cp_amount b,
      p_sales = [?x1, \<lparr>a_sale = k, a_amount = min a2 (s_balance s - a1)\<rparr>],
      p_totalAllocated = a1 + min a2 (s_balance s - a1)\<rparr>"
    using nn part by (simp add: paymentValid_def)
  then show "\<exists>pid p. fst (createPayment b st) = Inr (pid, p) \<and>
            p_sales p = [\<lparr>a_sale = k, a_amount = a1\<rparr>,
                         \<lparr>a_sale = k, a_amount = min a2 (s_balance s - a1)\<rparr>]"
    using h loop by (simp add: createPayment_def Let_def paymentSave_def)
qed

text \<open>
  On \<open>dbA\<close> sale A has a balance of 1000. Allocating 1000 and then 500 to it is refused
  at the second allocation, which finds the balance at zero; allocating 600 and then
  500 records 600 and 400.
\<close>

theorem createPayment_InvalidState_iff_witness:
  "map_option s_balance (map_of (sales dbA) 1) = Some 1000 \<and>
   fst (createPayment payTwice dbA) = Inl InvalidState \<and>
   allocateAll (take 1 (cp_sales payTwice)) ([], 0) dbA =
     (Inr ([\<lparr>a_sale = 1, a_amount = 1000\<rparr>], 1000), dbA1000) \<and>
   map_option s_balance (map_of (sales dbA1000) 1) = Some 0 \<and>
   (\<exists>pid p. fst (createPayment paySplit dbA) = Inr (pid, p) \<and>
      p_sales p = [\<lparr>a_sale = 1, a_amount = 600\<rparr>, \<lparr>a_sale = 1, a_amount = 400\<rparr>])"
proof -
  let ?c = "\<lparr>creditLimit = 0, outstandingAmount = 2000, totalPurchase = 1000\<rparr>"
  have cust: "map_of (customers dbA) 1 = Some ?c" and sale: "map_of (sales dbA) 1 = Some saleA"
    by (simp_all add: dbA_def)
  have valid: "saleValid saleA" and bal: "s_balance saleA = 1000"
    by (simp_all add: saleA_def itemA_def saleValid_def itemValid_def tolerance_def)
  have v1: "createPaymentValidation payTwice" and v2: "createPaymentValidation paySplit"
    by (simp_all add: payTwice_def paySplit_def createPaymentValidation_def tolerance_def)
  have pre: "allocateAll (take 1 (cp_sales payTwice)) ([], 0) dbA =
     (Inr ([\<lparr>a_sale = 1, a_amount = 1000\<rparr>], 1000), dbA1000)"
    by code_simp
  have zero: "map_of (sales dbA1000) 1 = Some saleA1000" "s_balance saleA1000 = 0"
    by (simp_all add: dbA1000_def saleA1000_def)
  note main = createPayment_InvalidState_iff
  have refused: "fst (createPayment payTwice dbA) = Inl InvalidState"
    using main [where b = payTwice and st = dbA and c = ?c and k = 1 and ?a1.0 = 1000
        and ?a2.0 = 500 and s = saleA]
      v1 cust sale valid bal
    by (simp add: payTwice_def)
  then have "\<exists>i < length (cp_sales payTwice). \<exists>acc_i st_i s.
      allocateAll (take i (cp_sales payTwice)) ([], 0) dbA = (Inr acc_i, st_i) \<and>
      map_of (sales st_i) (a_sale (cp_sales payTwice ! i)) = Some s \<and> s_balance s \<le> 0"
    using main [where b = payTwice and st = dbA and c = ?c] v1 cust
    by (simp add: payTwice_def)
  have split: "\<exists>pid p. fst (createPayment paySplit dbA) = Inr (pid, p) \<and>
      p_sales p = [\<lparr>a_sale = 1, a_amount = 600\<rparr>, \<lparr>a_sale = 1, a_amount = 400\<rparr>]"
    using main [where b = paySplit and st = dbA and c = ?c and k = 1 and ?a1.0 = 600
        and ?a2.0 = 500 and s = saleA]
      v2 cust sale valid bal
    by (simp add: paySplit_def)
  show ?thesis
    using sale bal refused pre zero split by simp
qed

section \<open>The handlers keep the stored sales consistent\<close>

lemma list_all_update:
  "list_all P al \<Longrightarrow> P (k, v) \<Longrightarrow> list_all P (AList.update k v al)"
  by (induction al) auto

lemma ledgerOk_cong: "sales st' = sales st \<Longrightarrow> ledgerOk st' = ledgerOk st"
  by (simp add: ledgerOk_def)

lemma ledgerOk_lookup:
  "ledgerOk st \<Longrightarrow> map_of (sales st) k = Some s \<Longrightarrow> saleValid s \<and> balanceNear s"
  by (auto simp: ledgerOk_def list_all_iff dest: map_of_SomeD)

lemma ledgerOk_saleSave:
  "saleSave sid s st = Some st' \<Longrightarrow> ledgerOk st \<Longrightarrow> balanceNear s \<Longrightarrow> ledgerOk st'"
  by (auto dest!: saleSave_SomeD simp: ledgerOk_def list_all_update)

lemma sales_decrementStock [simp]: "sales (decrementStock its st) = sales st"
  by (induction its arbitrary: st) (simp_all add: productInc_def split: option.splits)

lemma sales_restoreStock [simp]: "sales (restoreStock its st) = sales st"
  by (induction its arbitrary: st) (simp_all add: productInc_def split: option.splits)

lemma balanceNear_snap: "s_balance s = snapBalance (s_total s - s_paid s) \<Longrightarrow> balanceNear s"
  by (simp add: balanceNear_def snapBalance_def abs_minus_commute tolerance_def)

lemma balanceNear_shift:
  "balanceNear s \<Longrightarrow>
     s_balance s' - (s_total s' - s_paid s') = s_balance s - (s_total s - s_paid s) \<Longrightarrow>
     balanceNear s'"
  by (simp add: balanceNear_def)

lemma ledgerOk_createSale: "ledgerOk st \<Longrightarrow> ledgerOk (snd (createSale cb st))"
proof (cases "createSale cb st")
  case (Pair res st')
  assume ok: "ledgerOk st"
  show ?thesis
  proof (cases res)
    case (Inl e)
    with Pair have "st' = st"
      by (auto simp: createSale_def Let_def split: if_splits option.splits sum.splits prod.splits)
    with Pair ok show ?thesis by simp
  next
    case (Inr r)
    obtain sid s where r: "r = (sid, s)" by (cases r)
    from Pair Inr r obtain its st1 where
      sv: "saleSave (newId (sales st)) s st = Some st1" and
      st': "st' = customerInc (s_customer s) (s_total s) (s_balance s) (decrementStock its st1)"
      by (auto simp: createSale_def Let_def split: if_splits option.splits sum.splits prod.splits)
    have "balanceNear s"
      using Pair Inr r createSale_InrD(2) balanceNear_snap by blast
    with ledgerOk_saleSave [OF sv ok] have "ledgerOk st1" .
    then show ?thesis
      using Pair st' by (simp add: ledgerOk_def)
  qed
qed

lemma ledgerOk_updateSale: "ledgerOk st \<Longrightarrow> ledgerOk (snd (updateSale sid ub st))"
proof (cases "updateSale sid ub st")
  case (Pair res st')
  assume ok: "ledgerOk st"
  show ?thesis
  proof (cases res)
    case (Inl e)
    with Pair have "st' = st"
      by (auto simp: updateSale_def Let_def split: if_splits option.splits)
    with Pair ok show ?thesis by simp
  next
    case (Inr s)
    from Pair Inr obtain st1 where
      sv: "saleSave sid s st = Some st1" and st': "sales st' = sales st1"
      by (auto simp: updateSale_def Let_def split: if_splits option.splits)
    have "balanceNear s"
      using Pair Inr updateSale_InrD(2) balanceNear_snap by blast
    with ledgerOk_saleSave [OF sv ok] have "ledgerOk st1" .
    then show ?thesis
      using Pair st' by (simp add: ledgerOk_def)
  qed
qed

lemma ledgerOk_deleteSale: "ledgerOk st \<Longrightarrow> ledgerOk (snd (deleteSale sid st))"
proof -
  assume ok: "ledgerOk st"
  show ?thesis
  proof (cases "map_of (sales st) sid")
    case None
    with ok show ?thesis by (simp add: deleteSale_def)
  next
    case (Some s)
    let ?st2 = "customerInc (s_customer s) (- s_total s) (- s_balance s) (restoreStock (s_items s) st)"
    have ok2: "ledgerOk ?st2"
      using ok by (simp add: ledgerOk_def)
    have near: "balanceNear (s\<lparr>s_status := Cancelled\<rparr>)"
      using ledgerOk_lookup [OF ok Some] by (simp add: balanceNear_def)
    show ?thesis
    proof (cases "saleSave sid (s\<lparr>s_status := Cancelled\<rparr>) ?st2")
      case None
      with Some ok ok2 show ?thesis by (simp add: deleteSale_def Let_def)
    next
      case (Some st3)
      from ledgerOk_saleSave [OF Some ok2 near] \<open>map_of (sales st) sid = Some s\<close> Some ok
      show ?thesis by (simp add: deleteSale_def Let_def)
    qed
  qed
qed

lemma ledgerOk_allocateOne: "ledgerOk st \<Longrightarrow> ledgerOk (snd (allocateOne a st))"
proof (cases "allocateOne a st")
  case (Pair res st')
  assume ok: "ledgerOk st"
  show ?thesis
  proof (cases res)
    case (Inl e)
    with Pair ok show ?thesis by (auto dest: allocateOne_Inl_state)
  next
    case (Inr r)
    with Pair obtain s st1 where s: "map_of (sales st) (a_sale a) = Some s" and
      sv: "saleSave (a_sale a)
       (s\<lparr>s_paid := s_paid s + a_amount r, s_balance := s_balance s - a_amount r,
          s_paymentStatus := paymentStatusOf (s_balance s - a_amount r) (s_paid s + a_amount r)\<rparr>) st
        = Some st1" and st': "st' = customerInc (s_customer s) 0 (- a_amount r) st1"
      by (auto elim!: allocateOne_InrD)
    have "balanceNear (s\<lparr>s_paid := s_paid s + a_amount r, s_balance := s_balance s - a_amount r,
          s_paymentStatus := paymentStatusOf (s_balance s - a_amount r) (s_paid s + a_amount r)\<rparr>)"
      by (rule balanceNear_shift [of s]) (use ledgerOk_lookup [OF ok s] in simp_all)
    with ledgerOk_saleSave [OF sv ok] have "ledgerOk st1" .
    then show ?thesis using Pair st' by (simp add: ledgerOk_def)
  qed
qed

lemma ledgerOk_allocateAll: "ledgerOk st \<Longrightarrow> ledgerOk (snd (allocateAll xs acc st))"
proof (induction xs arbitrary: acc st)
  case Nil
  then show ?case by simp
next
  case (Cons a xs)
  from ledgerOk_allocateOne [OF Cons.prems, of a] Cons.IH show ?case
    by (auto split: prod.splits sum.splits)
qed

lemma ledgerOk_reapplyOne: "ledgerOk st \<Longrightarrow> ledgerOk (snd (reapplyOne a st))"
proof (cases "reapplyOne a st")
  case (Pair res st')
  assume ok: "ledgerOk st"
  show ?thesis
  proof (cases res)
    case (Inl e)
    with Pair have "st' = st"
      by (auto simp: reapplyOne_def Let_def split: option.splits)
    with Pair ok show ?thesis by simp
  next
    case (Inr r)
    with Pair obtain s st1 where s: "map_of (sales st) (a_sale a) = Some s" and
      sv: "saleSave (a_sale a)
       (s\<lparr>s_paid := s_paid s + a_amount a, s_balance := s_balance s - a_amount a,
          s_paymentStatus := paymentStatusOf (s_balance s - a_amount a) (s_paid s + a_amount a)\<rparr>) st
        = Some st1" and st': "st' = customerInc (s_customer s) 0 (- a_amount a) st1"
      by (auto elim!: reapplyOne_InrD)
    have "balanceNear (s\<lparr>s_paid := s_paid s + a_amount a, s_balance := s_balance s - a_amount a,
          s_paymentStatus := paymentStatusOf (s_balance s - a_amount a) (s_paid s + a_amount a)\<rparr>)"
      by (rule balanceNear_shift [of s]) (use ledgerOk_lookup [OF ok s] in simp_all)
    with ledgerOk_saleSave [OF sv ok] have "ledgerOk st1" .
    then show ?thesis using Pair st' by (simp add: ledgerOk_def)
  qed
qed

lemma ledgerOk_reapplyAll: "ledgerOk st \<Longrightarrow> ledgerOk (snd (reapplyAll xs acc st))"
proof (induction xs arbitrary: acc st)
  case Nil
  then show ?case by simp
next
  case (Cons a xs)
  from ledgerOk_reapplyOne [OF Cons.prems, of a] Cons.IH show ?case
    by (auto split: prod.splits sum.splits)
qed

lemma ledgerOk_reverseOne: "ledgerOk st \<Longrightarrow> reverseOne a st = Some st' \<Longrightarrow> ledgerOk st'"
proof (cases "map_of (sales st) (a_sale a)")
  case None
  assume "ledgerOk st" "reverseOne a st = Some st'"
  with None show ?thesis by (simp add: reverseOne_def)
next
  case (Some s)
  assume ok: "ledgerOk st" and rv: "reverseOne a st = Some st'"
  from reverseOne_SomeD [OF rv Some] obtain st1 where
      sv: "saleSave (a_sale a)
       (s\<lparr>s_paid := s_paid s - a_amount a, s_balance := s_balance s + a_amount a,
          s_paymentStatus := paymentStatusOf (s_balance s + a_amount a) (s_paid s - a_amount a)\<rparr>) st
        = Some st1" and st': "st' = customerInc (s_customer s) 0 (a_amount a) st1"
    by blast
  have "balanceNear (s\<lparr>s_paid := s_paid s - a_amount a, s_balance := s_balance s + a_amount a,
          s_paymentStatus := paymentStatusOf (s_balance s + a_amount a) (s_paid s - a_amount a)\<rparr>)"
    by (rule balanceNear_shift [of s]) (use ledgerOk_lookup [OF ok Some] in simp_all)
  with ledgerOk_saleSave [OF sv ok] have "ledgerOk st1" .
  then show ?thesis using st' by (simp add: ledgerOk_def)
qed

lemma ledgerOk_reverseAll:
  "ledgerOk st \<Longrightarrow> ledgerOk (case reverseAll xs st of Inl st1 \<Rightarrow> st1 | Inr st1 \<Rightarrow> st1)"
proof (induction xs arbitrary: st)
  case Nil
  then show ?case by simp
next
  case (Cons a xs)
  show ?case
  proof (cases "reverseOne a st")
    case None
    with Cons.prems show ?thesis by simp
  next
    case (Some st1)
    from ledgerOk_reverseOne [OF Cons.prems Some] Cons.IH Some show ?thesis by simp
  qed
qed

lemma ledgerOk_paymentSave: "paymentSave pid p st = Some st' \<Longrightarrow> ledgerOk st' = ledgerOk st"
  by (auto simp: paymentSave_def ledgerOk_def split: if_splits)

lemma ledgerOk_createPayment: "ledgerOk st \<Longrightarrow> ledgerOk (snd (createPayment pb st))"
  using ledgerOk_allocateAll [of st "cp_sales pb" "([], 0)"]
  by (auto simp: createPayment_def Let_def ledgerOk_paymentSave
      split: option.splits prod.splits sum.splits)

lemma ledgerOk_updatePayment: "ledgerOk st \<Longrightarrow> ledgerOk (snd (updatePayment pid ub st))"
proof -
  assume ok: "ledgerOk st"
  show ?thesis
  proof (cases "map_of (payments st) pid")
    case None
    with ok show ?thesis by (simp add: updatePayment_def)
  next
    case (Some pay)
    show ?thesis
    proof (cases "reverseAll (p_sales pay) st")
      case (Inl st1)
      with ledgerOk_reverseAll [OF ok, of "p_sales pay"] Some ok show ?thesis
        by (simp add: updatePayment_def)
    next
      case (Inr st1)
      with ledgerOk_reverseAll [OF ok, of "p_sales pay"] have ok1: "ledgerOk st1" by simp
      from ledgerOk_reapplyAll [OF ok1, of "up_sales ub" "([], 0)"] Some Inr ok show ?thesis
        by (auto simp: updatePayment_def Let_def ledgerOk_paymentSave
            split: option.splits prod.splits sum.splits)
    qed
  qed
qed

text \<open>
  Whatever a handler answers, it leaves every stored sale valid and with its balance
  within the tolerance of \<open>total - paid\<close>, if it found them so.
\<close>

lemma handlers_keep_ledgerOk:
  "ledgerOk st \<longrightarrow>
     ledgerOk (snd (createSale cb st)) \<and> ledgerOk (snd (updateSale sid ub st)) \<and>
     ledgerOk (snd (deleteSale sid st)) \<and> ledgerOk (snd (createPayment pb st)) \<and>
     ledgerOk (snd (updatePayment pid upb st))"
  by (simp add: ledgerOk_createSale ledgerOk_updateSale ledgerOk_deleteSale
      ledgerOk_createPayment ledgerOk_updatePayment)


section \<open>Cancelling a sale\<close>

lemma customers_productInc [simp]: "customers (productInc pid d st) = customers st"
  by (simp add: productInc_def split: option.splits)

lemma sales_productInc [simp]: "sales (productInc pid d st) = sales st"
  by (simp add: productInc_def split: option.splits)

lemma payments_productInc [simp]: "payments (productInc pid d st) = payments st"
  by (simp add: productInc_def split: option.splits)

lemma map_of_productInc:
  "map_of (products (productInc pid d st)) k =
     (if k = pid
      then map_option (\<lambda>p. p\<lparr>stock_current := stock_current p + d\<rparr>) (map_of (products st) pid)
      else map_of (products st) k)"
  by (simp add: productInc_def update_conv' split: option.splits)

lemma restoreStock_frame [simp]:
  "customers (restoreStock its st) = customers st"
  "sales (restoreStock its st) = sales st"
  "payments (restoreStock its st) = payments st"
  by (induction its arbitrary: st) simp_all

lemma map_of_restoreStock:
  "map_of (products (restoreStock its st)) k =
     map_option (\<lambda>p. p\<lparr>stock_current :=
        stock_current p + sum_list (map i_quantity [i \<leftarrow> its. i_product i = k])\<rparr>)
       (map_of (products st) k)"
proof (induction its arbitrary: st)
  case Nil
  then show ?case by (simp add: option.map_ident)
next
  case (Cons i its)
  show ?case
    by (cases "map_of (products st) k")
      (auto simp: Cons.IH map_of_productInc add.assoc)
qed

lemma customers_postSave_inactive:
  "\<not> (s_status s = Completed \<and> 0 < s_balance s) \<Longrightarrow> postSave s st = st"
  by (auto simp: postSave_def)

text \<open>
  C8. deleteSale on a stored sale that is not cancelled and passes the schema's
  validators (the handlers store no other sale: \<open>handlers_keep_ledgerOk\<close>) succeeds
  and leaves: every
  product's stock raised by the quantities of the sale's items of that product; the
  sale's customer with totalPurchase lowered by the sale's total and outstandingAmount
  lowered by the sale's balance, both as stored at that moment, and every other customer
  as before; the sale cancelled and otherwise as it was, every other sale as before;
  the payments untouched. On a cancelled sale it answers InvalidState and the database
  is the one it was given.
\<close>

theorem deleteSale_cancels:
  "(map_of (sales st) sid = Some s \<and> s_status s \<noteq> Cancelled \<and> saleValid s \<longrightarrow>
      (\<exists>st'. deleteSale sid st = (Inr (), st') \<and>
         (\<forall>k. map_of (products st') k =
            map_option (\<lambda>p. p\<lparr>stock_current :=
                stock_current p + sum_list (map i_quantity [i \<leftarrow> s_items s. i_product i = k])\<rparr>)
              (map_of (products st) k)) \<and>
         (\<forall>c. map_of (customers st') c =
            (if c = s_customer s
             then map_option (\<lambda>cu. cu\<lparr>totalPurchase := totalPurchase cu - s_total s,
                                       outstandingAmount := outstandingAmount cu - s_balance s\<rparr>)
                    (map_of (customers st) c)
             else map_of (customers st) c)) \<and>
         (\<forall>k. map_of (sales st') k =
            (if k = sid then Some (s\<lparr>s_status := Cancelled\<rparr>) else map_of (sales st) k)) \<and>
         payments st' = payments st)) \<and>
   (map_of (sales st) sid = Some s \<and> s_status s = Cancelled \<longrightarrow>
      deleteSale sid st = (Inl InvalidState, st))"
proof (intro conjI impI)
  assume h: "map_of (sales st) sid = Some s \<and> s_status s \<noteq> Cancelled \<and> saleValid s"
  let ?st2 = "customerInc (s_customer s) (- s_total s) (- s_balance s) (restoreStock (s_items s) st)"
  let ?st3 = "?st2\<lparr>sales := AList.update sid (s\<lparr>s_status := Cancelled\<rparr>) (sales ?st2)\<rparr>"
  have v: "saleValid (s\<lparr>s_status := Cancelled\<rparr>)"
    using h by (simp add: saleValid_def)
  have run: "deleteSale sid st = (Inr (), ?st3)"
    using h v by (simp add: deleteSale_def Let_def saleSave_def postSave_def)
  have "(\<forall>k. map_of (products ?st3) k =
            map_option (\<lambda>p. p\<lparr>stock_current :=
                stock_current p + sum_list (map i_quantity [i \<leftarrow> s_items s. i_product i = k])\<rparr>)
              (map_of (products st) k))"
    by (simp add: map_of_restoreStock)
  moreover have "(\<forall>c. map_of (customers ?st3) c =
            (if c = s_customer s
             then map_option (\<lambda>cu. cu\<lparr>totalPurchase := totalPurchase cu - s_total s,
                                       outstandingAmount := outstandingAmount cu - s_balance s\<rparr>)
                    (map_of (customers st) c)
             else map_of (customers st) c))"
    by (simp add: map_of_customerInc)
  moreover have "(\<forall>k. map_of (sales ?st3) k =
            (if k = sid then Some (s\<lparr>s_status := Cancelled\<rparr>) else map_of (sales st) k))"
    by (simp add: update_conv')
  moreover have "payments ?st3 = payments st"
    by simp
  ultimately show "\<exists>st'. deleteSale sid st = (Inr (), st') \<and>
         (\<forall>k. map_of (products st') k =
            map_option (\<lambda>p. p\<lparr>stock_current :=
                stock_current p + sum_list (map i_quantity [i \<leftarrow> s_items s. i_product i = k])\<rparr>)
              (map_of (products st) k)) \<and>
         (\<forall>c. map_of (customers st') c =
            (if c = s_customer s
             then map_option (\<lambda>cu. cu\<lparr>totalPurchase := totalPurchase cu - s_total s,
                                       outstandingAmount := outstandingAmount cu - s_balance s\<rparr>)
                    (map_of (customers st) c)
             else map_of (customers st) c)) \<and>
         (\<forall>k. map_of (sales st') k =
            (if k = sid then Some (s\<lparr>s_status := Cancelled\<rparr>) else map_of (sales st) k)) \<and>
         payments st' = payments st"
    using run by blast
next
  assume "map_of (sales st) sid = Some s \<and> s_status s = Cancelled"
  then show "deleteSale sid st = (Inl InvalidState, st)"
    by (simp add: deleteSale_def)
qed

text \<open>
  Sale A with total 1000 and balance 400 (\<open>dbB\<close>): cancelling it takes the customer's
  totalPurchase from 1000 to 0 and the outstanding amount from 1800 to 1400, puts the
  unit back in stock and leaves the payment as it is; cancelling it again is refused.
\<close>

theorem deleteSale_cancels_witness:
  "map_of (sales dbB) 1 = Some saleA600 \<and> s_total saleA600 = 1000 \<and> s_balance saleA600 = 400 \<and>
   deleteSale 1 dbB = (Inr (), dbCancelled) \<and>
   map_of (customers dbB) 1 =
     Some \<lparr>creditLimit = 0, outstandingAmount = 1800, totalPurchase = 1000\<rparr> \<and>
   map_of (customers dbCancelled) 1 =
     Some \<lparr>creditLimit = 0, outstandingAmount = 1400, totalPurchase = 0\<rparr> \<and>
   map_of (products dbB) 1 = Some \<lparr>stock_current = 9\<rparr> \<and>
   map_of (products dbCancelled) 1 = Some \<lparr>stock_current = 10\<rparr> \<and>
   payments dbCancelled = payments dbB \<and>
   deleteSale 1 dbCancelled = (Inl InvalidState, dbCancelled)"
proof -
  have sale: "map_of (sales dbB) 1 = Some saleA600" and
    cust: "map_of (customers dbB) 1 =
      Some \<lparr>creditLimit = 0, outstandingAmount = 1800, totalPurchase = 1000\<rparr>" and
    prod: "map_of (products dbB) 1 = Some \<lparr>stock_current = 9\<rparr>"
    by (simp_all add: dbB_def)
  have vals: "s_total saleA600 = 1000" "s_balance saleA600 = 400" "s_status saleA600 \<noteq> Cancelled"
    "s_customer saleA600 = 1" "s_items saleA600 = [itemA]"
    by (simp_all add: saleA600_def saleA_def)
  have valid: "saleValid saleA600"
    by (simp add: saleA600_def saleA_def itemA_def saleValid_def itemValid_def tolerance_def)
  have run: "deleteSale 1 dbB = (Inr (), dbCancelled)"
    by code_simp
  from deleteSale_cancels [of dbB 1 saleA600] sale vals valid run have
    "map_of (products dbCancelled) 1 =
       map_option (\<lambda>p. p\<lparr>stock_current :=
           stock_current p + sum_list (map i_quantity [i \<leftarrow> [itemA]. i_product i = 1])\<rparr>)
         (map_of (products dbB) 1)" and
    "map_of (customers dbCancelled) 1 =
       map_option (\<lambda>cu. cu\<lparr>totalPurchase := totalPurchase cu - 1000,
                             outstandingAmount := outstandingAmount cu - 400\<rparr>)
         (map_of (customers dbB) 1)" and
    pays: "payments dbCancelled = payments dbB"
    by auto
  then have after: "map_of (products dbCancelled) 1 = Some \<lparr>stock_current = 10\<rparr>"
    "map_of (customers dbCancelled) 1 =
       Some \<lparr>creditLimit = 0, outstandingAmount = 1400, totalPurchase = 0\<rparr>"
    using cust prod by (simp_all add: itemA_def)
  have "map_of (sales dbCancelled) 1 = Some (saleA600\<lparr>s_status := Cancelled\<rparr>)"
    by (simp add: dbCancelled_def)
  with deleteSale_cancels [of dbCancelled 1 "saleA600\<lparr>s_status := Cancelled\<rparr>"]
  have again: "deleteSale 1 dbCancelled = (Inl InvalidState, dbCancelled)"
    by simp
  show ?thesis
    using sale vals run cust prod after pays again by simp
qed

section \<open>The post-save hook\<close>

lemma storedOutstanding_customerInc:
  "storedOutstanding (customerInc c dp d st) k =
     (if k = c then map_option (\<lambda>x. x + d) (storedOutstanding st c) else storedOutstanding st k)"
  by (simp add: storedOutstanding_def map_of_customerInc option.map_comp comp_def)

lemma storedOutstanding_sales_update [simp]:
  "storedOutstanding (st\<lparr>sales := x\<rparr>) k = storedOutstanding st k"
  by (simp add: storedOutstanding_def)

lemma storedOutstanding_postSave:
  "storedOutstanding (postSave s st) k =
     (if k = s_customer s then map_option (\<lambda>x. x + hookAmount s) (storedOutstanding st k)
      else storedOutstanding st k)"
  by (auto simp: postSave_def hookAmount_def storedOutstanding_customerInc option.map_ident)

lemma storedOutstanding_saleSave:
  "saleSave sid s st = Some st' \<Longrightarrow>
     storedOutstanding st' k =
       (if k = s_customer s then map_option (\<lambda>x. x + hookAmount s) (storedOutstanding st k)
        else storedOutstanding st k)"
  by (auto dest!: saleSave_SomeD simp: storedOutstanding_postSave)

text \<open>
  C10. A save of a completed sale with a positive balance adds that balance to the
  outstanding amount stored with the sale's customer. So sale creation adds the balance
  twice, and a sale update, the allocation of a payment, the reversal of an allocation
  and its re-application each change the stored amount by the balance difference they
  apply themselves plus the whole balance the sale has after the step.
\<close>

theorem save_adds_balance_again:
  "(saleSave sid s1 st = Some st' \<and> s_status s1 = Completed \<and> 0 < s_balance s1 \<and>
    storedOutstanding st (s_customer s1) = Some x \<longrightarrow>
      storedOutstanding st' (s_customer s1) = Some (x + s_balance s1)) \<and>
   (createSale cb st = (Inr (sid, s1), st') \<and> 0 < s_balance s1 \<and>
    storedOutstanding st (s_customer s1) = Some x \<longrightarrow>
      storedOutstanding st' (s_customer s1) = Some (x + s_balance s1 + s_balance s1)) \<and>
   (updateSale sid ub st = (Inr s1, st') \<and> map_of (sales st) sid = Some s0 \<and>
    s_status s1 = Completed \<and> 0 < s_balance s1 \<and>
    storedOutstanding st (s_customer s1) = Some x \<longrightarrow>
      storedOutstanding st' (s_customer s1) =
        Some (x + (s_balance s1 - s_balance s0) + s_balance s1)) \<and>
   (allocateOne a st = (Inr r, st') \<and> map_of (sales st) (a_sale a) = Some s0 \<and>
    map_of (sales st') (a_sale a) = Some s1 \<and> s_status s1 = Completed \<and> 0 < s_balance s1 \<and>
    storedOutstanding st (s_customer s1) = Some x \<longrightarrow>
      storedOutstanding st' (s_customer s1) =
        Some (x + (s_balance s1 - s_balance s0) + s_balance s1)) \<and>
   (reverseOne a st = Some st' \<and> map_of (sales st) (a_sale a) = Some s0 \<and>
    map_of (sales st') (a_sale a) = Some s1 \<and> s_status s1 = Completed \<and> 0 < s_balance s1 \<and>
    storedOutstanding st (s_customer s1) = Some x \<longrightarrow>
      storedOutstanding st' (s_customer s1) =
        Some (x + (s_balance s1 - s_balance s0) + s_balance s1)) \<and>
   (reapplyOne a st = (Inr r, st') \<and> map_of (sales st) (a_sale a) = Some s0 \<and>
    map_of (sales st') (a_sale a) = Some s1 \<and> s_status s1 = Completed \<and> 0 < s_balance s1 \<and>
    storedOutstanding st (s_customer s1) = Some x \<longrightarrow>
      storedOutstanding st' (s_customer s1) =
        Some (x + (s_balance s1 - s_balance s0) + s_balance s1))"
proof (intro conjI impI)
  assume "saleSave sid s1 st = Some st' \<and> s_status s1 = Completed \<and> 0 < s_balance s1 \<and>
    storedOutstanding st (s_customer s1) = Some x"
  then show "storedOutstanding st' (s_customer s1) = Some (x + s_balance s1)"
    using storedOutstanding_saleSave [of sid s1 st st' "s_customer s1"]
    by (simp add: hookAmount_def)
next
  assume h: "createSale cb st = (Inr (sid, s1), st') \<and> 0 < s_balance s1 \<and>
    storedOutstanding st (s_customer s1) = Some x"
  then obtain its st1 where
    sv: "saleSave (newId (sales st)) s1 st = Some st1" and
    st': "st' = customerInc (s_customer s1) (s_total s1) (s_balance s1) (decrementStock its st1)"
    by (auto simp: createSale_def Let_def split: if_splits option.splits sum.splits prod.splits)
  have fr: "customers (decrementStock xs y) = customers y" for xs y
    by (induction xs arbitrary: y) simp_all
  have "storedOutstanding (decrementStock its st1) k = storedOutstanding st1 k" for k
    by (simp add: storedOutstanding_def fr)
  moreover have "s_status s1 = Completed"
    using h createSale_InrD(3) by blast
  ultimately show "storedOutstanding st' (s_customer s1) = Some (x + s_balance s1 + s_balance s1)"
    using h st' storedOutstanding_saleSave [OF sv]
    by (simp add: storedOutstanding_customerInc hookAmount_def)
next
  assume h: "updateSale sid ub st = (Inr s1, st') \<and> map_of (sales st) sid = Some s0 \<and>
    s_status s1 = Completed \<and> 0 < s_balance s1 \<and>
    storedOutstanding st (s_customer s1) = Some x"
  then obtain st1 where
    sv: "saleSave sid s1 st = Some st1" and
    st': "st' = (if s_total s1 - s_total s0 \<noteq> 0 \<or> s_balance s1 - s_balance s0 \<noteq> 0
                 then customerInc (s_customer s1) (s_total s1 - s_total s0)
                        (s_balance s1 - s_balance s0) st1
                 else st1)"
    by (auto simp: updateSale_def Let_def split: if_splits option.splits)
  show "storedOutstanding st' (s_customer s1) =
        Some (x + (s_balance s1 - s_balance s0) + s_balance s1)"
    using h st' storedOutstanding_saleSave [OF sv]
    by (auto simp: storedOutstanding_customerInc hookAmount_def)
next
  assume h: "allocateOne a st = (Inr r, st') \<and> map_of (sales st) (a_sale a) = Some s0 \<and>
    map_of (sales st') (a_sale a) = Some s1 \<and> s_status s1 = Completed \<and> 0 < s_balance s1 \<and>
    storedOutstanding st (s_customer s1) = Some x"
  then obtain st1 where
    sv: "saleSave (a_sale a)
       (s0\<lparr>s_paid := s_paid s0 + a_amount r, s_balance := s_balance s0 - a_amount r,
          s_paymentStatus := paymentStatusOf (s_balance s0 - a_amount r) (s_paid s0 + a_amount r)\<rparr>) st
     = Some st1" and st': "st' = customerInc (s_customer s0) 0 (- a_amount r) st1"
    by (auto elim!: allocateOne_InrD)
  from map_of_sales_saleSave [OF sv] st' h have
    s1: "s1 = s0\<lparr>s_paid := s_paid s0 + a_amount r, s_balance := s_balance s0 - a_amount r,
          s_paymentStatus := paymentStatusOf (s_balance s0 - a_amount r) (s_paid s0 + a_amount r)\<rparr>"
    by simp
  show "storedOutstanding st' (s_customer s1) =
        Some (x + (s_balance s1 - s_balance s0) + s_balance s1)"
    using h st' storedOutstanding_saleSave [OF sv] s1
    by (auto simp: storedOutstanding_customerInc hookAmount_def)
next
  assume h: "reverseOne a st = Some st' \<and> map_of (sales st) (a_sale a) = Some s0 \<and>
    map_of (sales st') (a_sale a) = Some s1 \<and> s_status s1 = Completed \<and> 0 < s_balance s1 \<and>
    storedOutstanding st (s_customer s1) = Some x"
  then obtain st1 where
    sv: "saleSave (a_sale a)
       (s0\<lparr>s_paid := s_paid s0 - a_amount a, s_balance := s_balance s0 + a_amount a,
          s_paymentStatus := paymentStatusOf (s_balance s0 + a_amount a) (s_paid s0 - a_amount a)\<rparr>) st
     = Some st1" and st': "st' = customerInc (s_customer s0) 0 (a_amount a) st1"
    by (auto elim!: reverseOne_SomeD)
  from map_of_sales_saleSave [OF sv] st' h have
    s1: "s1 = s0\<lparr>s_paid := s_paid s0 - a_amount a, s_balance := s_balance s0 + a_amount a,
          s_paymentStatus := paymentStatusOf (s_balance s0 + a_amount a) (s_paid s0 - a_amount a)\<rparr>"
    by simp
  show "storedOutstanding st' (s_customer s1) =
        Some (x + (s_balance s1 - s_balance s0) + s_balance s1)"
    using h st' storedOutstanding_saleSave [OF sv] s1
    by (auto simp: storedOutstanding_customerInc hookAmount_def)
next
  assume h: "reapplyOne a st = (Inr r, st') \<and> map_of (sales st) (a_sale a) = Some s0 \<and>
    map_of (sales st') (a_sale a) = Some s1 \<and> s_status s1 = Completed \<and> 0 < s_balance s1 \<and>
    storedOutstanding st (s_customer s1) = Some x"
  then obtain st1 where
    sv: "saleSave (a_sale a)
       (s0\<lparr>s_paid := s_paid s0 + a_amount a, s_balance := s_balance s0 - a_amount a,
          s_paymentStatus := paymentStatusOf (s_balance s0 - a_amount a) (s_paid s0 + a_amount a)\<rparr>) st
     = Some st1" and st': "st' = customerInc (s_customer s0) 0 (- a_amount a) st1"
    by (auto elim!: reapplyOne_InrD)
  from map_of_sales_saleSave [OF sv] st' h have
    s1: "s1 = s0\<lparr>s_paid := s_paid s0 + a_amount a, s_balance := s_balance s0 - a_amount a,
          s_paymentStatus := paymentStatusOf (s_balance s0 - a_amount a) (s_paid s0 + a_amount a)\<rparr>"
    by simp
  show "storedOutstanding st' (s_customer s1) =
        Some (x + (s_balance s1 - s_balance s0) + s_balance s1)"
    using h st' storedOutstanding_saleSave [OF sv] s1
    by (auto simp: storedOutstanding_customerInc hookAmount_def)
qed

text \<open>
  The worked ledger: creating sale A (balance 1000) takes the stored outstanding amount
  from 0 to 2000; paying 600 on it, by a sale update or by an allocation, takes it from
  2000 to 1800 and not to 1400; reversing the allocation takes it from 1800 to 3400.
\<close>

theorem save_adds_balance_again_witness:
  "storedOutstanding db0 1 = Some 0 \<and>
   createSale body1000 db0 = (Inr (1, saleA), dbA) \<and> storedOutstanding dbA 1 = Some 2000 \<and>
   saleSave 1 saleA dbA =
     Some (dbA\<lparr>customers := [(1, \<lparr>creditLimit = 0, outstandingAmount = 3000, totalPurchase = 1000\<rparr>)]\<rparr>) \<and>
   updateSale 1 paid600 dbA = (Inr saleA600, dbU) \<and>
   allocateOne alloc600 dbA = (Inr alloc600, dbU) \<and>
   reapplyOne alloc600 dbA = (Inr alloc600, dbU) \<and> storedOutstanding dbU 1 = Some 1800 \<and>
   storedOutstanding dbB 1 = Some 1800 \<and>
   reverseOne alloc600 dbB = Some dbR \<and> storedOutstanding dbR 1 = Some 3400"
proof -
  note hook = save_adds_balance_again
  have o0: "storedOutstanding db0 1 = Some 0" and oB: "storedOutstanding dbB 1 = Some 1800"
    by (simp_all add: storedOutstanding_def db0_def dbB_def)
  have sA: "map_of (sales dbA) 1 = Some saleA" and sB: "map_of (sales dbB) 1 = Some saleA600"
    and sU: "map_of (sales dbU) 1 = Some saleA600" and sR: "map_of (sales dbR) 1 = Some saleA"
    by (simp_all add: dbA_def dbB_def dbU_def dbR_def)
  have vA: "s_customer saleA = 1" "s_balance saleA = 1000" "s_status saleA = Completed"
    and v6: "s_customer saleA600 = 1" "s_balance saleA600 = 400" "s_status saleA600 = Completed"
    by (simp_all add: saleA_def saleA600_def)
  have k: "a_sale alloc600 = 1"
    by (simp add: alloc600_def)
  have oA: "storedOutstanding dbA 1 = Some 2000"
    using hook [where cb = body1000 and st = db0 and sid = 1 and ?s1.0 = saleA and st' = dbA
        and x = 0]
      createSale_body1000 o0 vA by simp
  have sv: "saleSave 1 saleA dbA =
     Some (dbA\<lparr>customers := [(1, \<lparr>creditLimit = 0, outstandingAmount = 3000, totalPurchase = 1000\<rparr>)]\<rparr>)"
    by code_simp
  have "storedOutstanding
      (dbA\<lparr>customers := [(1, \<lparr>creditLimit = 0, outstandingAmount = 3000, totalPurchase = 1000\<rparr>)]\<rparr>) 1
      = Some (2000 + 1000)"
    using hook [where sid = 1 and ?s1.0 = saleA and st = dbA and x = 2000
        and st' = "dbA\<lparr>customers := [(1, \<lparr>creditLimit = 0, outstandingAmount = 3000, totalPurchase = 1000\<rparr>)]\<rparr>"]
      sv oA vA by simp
  have oU: "storedOutstanding dbU 1 = Some 1800"
    using hook [where sid = 1 and ub = paid600 and st = dbA and ?s1.0 = saleA600 and st' = dbU
        and ?s0.0 = saleA and x = 2000]
      updateSale_paid600 sA oA vA v6 by simp
  have "storedOutstanding dbU 1 = Some (2000 + (400 - 1000) + 400)"
    using hook [where a = alloc600 and st = dbA and r = alloc600 and st' = dbU
        and ?s0.0 = saleA and ?s1.0 = saleA600 and x = 2000]
      allocateOne_alloc600 reapplyOne_alloc600 sA sU oA vA v6 k by simp
  have oR: "storedOutstanding dbR 1 = Some 3400"
    using hook [where a = alloc600 and st = dbB and st' = dbR
        and ?s0.0 = saleA600 and ?s1.0 = saleA and x = 1800]
      reverseOne_alloc600 sB sR oB vA v6 k by simp
  show ?thesis
    using o0 createSale_body1000 oA sv updateSale_paid600 allocateOne_alloc600
      reapplyOne_alloc600 oU oB reverseOne_alloc600 oR
    by simp
qed

section \<open>Where the code departs from the specification\<close>

text \<open>
  C1. Creating sale A (total 1000, balance 1000) for a customer whose stored outstanding
  amount is 0 leaves it at 2000: the hook of the save adds the balance and the handler
  adds it again. The total purchase goes up by the total, once.
\<close>

theorem createSale_adds_balance_twice:
  "createSale body1000 db0 = (Inr (1, saleA), dbA) \<and>
   s_total saleA = 1000 \<and> s_balance saleA = 1000 \<and>
   map_of (customers db0) 1 = Some \<lparr>creditLimit = 0, outstandingAmount = 0, totalPurchase = 0\<rparr> \<and>
   map_of (customers dbA) 1 =
     Some \<lparr>creditLimit = 0, outstandingAmount = 2000, totalPurchase = 1000\<rparr>"
  using createSale_body1000 by (simp add: saleA_def db0_def dbA_def)

text \<open>
  C3. Allocating 999.995 to sale A (total 1000, nothing paid) leaves it with
  \<open>total - paid = 0.005\<close>, inside the tolerance, the status paid, and a stored balance of
  0.005: the allocation loop does not round the balance to zero as sale creation and
  sale update do. (That the balance stays within the tolerance of \<open>total - paid\<close> is
  part of \<open>handlers_keep_ledgerOk\<close>.)
\<close>

theorem allocation_leaves_balance_unrounded:
  "fst (createPayment payNear dbA) =
     Inr (1, \<lparr>p_customer = 1, p_amount = 1000,
               p_sales = [\<lparr>a_sale = 1, a_amount = 199999 / 200\<rparr>],
               p_totalAllocated = 199999 / 200\<rparr>) \<and>
   map_of (sales (snd (createPayment payNear dbA))) 1 = Some saleNear \<and>
   \<bar>s_total saleNear - s_paid saleNear\<bar> < 1 / 100 \<and>
   s_paymentStatus saleNear = Paid \<and>
   s_balance saleNear = 1 / 200 \<and> s_balance saleNear \<noteq> 0 \<and>
   snapBalance (s_total saleNear - s_paid saleNear) = 0"
proof -
  have "fst (createPayment payNear dbA) =
     Inr (1, \<lparr>p_customer = 1, p_amount = 1000,
               p_sales = [\<lparr>a_sale = 1, a_amount = 199999 / 200\<rparr>],
               p_totalAllocated = 199999 / 200\<rparr>)"
    by code_simp
  moreover have "map_of (sales (snd (createPayment payNear dbA))) 1 = Some saleNear"
    by code_simp
  ultimately show ?thesis
    by (simp add: saleNear_def saleA_def snapBalance_def tolerance_def)
qed

text \<open>
  C4. In \<open>dbB\<close> payment 1 holds 600 for sale A. Updating it to 1200 for sale A: after
  the reversal A has a balance of 1000; the update applies and records the whole 1200
  and leaves A overpaid by 200, where the allocation loop of createPayment, run on the
  same database, records 1000. In \<open>dbC\<close> payment 2 holds 400 for sale A. Updating it to
  400 and then 50 for sale A: the second allocation meets a balance of zero and is
  applied all the same, where the loop of createPayment answers InvalidState.
\<close>

theorem updatePayment_neither_checks_nor_clamps:
  "map_of (payments dbB) 1 = Some pay600 \<and>
   reverseAll (p_sales pay600) dbB = Inr dbR \<and>
   map_option s_balance (map_of (sales dbR) 1) = Some 1000 \<and>
   updatePayment 1 over1200 dbB = (Inr payOver, dbOver) \<and>
   p_sales payOver = [\<lparr>a_sale = 1, a_amount = 1200\<rparr>] \<and> p_totalAllocated payOver = 1200 \<and>
   map_of (sales dbOver) 1 = Some saleOver \<and>
   s_balance saleOver = - 200 \<and> s_paymentStatus saleOver = Overpaid \<and>
   fst (allocateAll (up_sales over1200) ([], 0) dbR) =
     Inr ([\<lparr>a_sale = 1, a_amount = 1000\<rparr>], 1000) \<and>
   map_of (payments dbC) 2 = Some pay500 \<and>
   reverseAll (p_sales pay500) dbC = Inr dbCrev \<and>
   fst (updatePayment 2 settled450 dbC) =
     Inr (pay500\<lparr>p_sales := [\<lparr>a_sale = 1, a_amount = 400\<rparr>, \<lparr>a_sale = 1, a_amount = 50\<rparr>],
                 p_totalAllocated := 450\<rparr>) \<and>
   map_option s_balance (map_of (sales (snd (updatePayment 2 settled450 dbC))) 1) = Some (- 50) \<and>
   fst (allocateAll (up_sales settled450) ([], 0) dbCrev) = Inl InvalidState"
proof -
  have "reverseAll (p_sales pay600) dbB = Inr dbR"
    by code_simp
  moreover have "updatePayment 1 over1200 dbB = (Inr payOver, dbOver)"
    by code_simp
  moreover have "fst (allocateAll (up_sales over1200) ([], 0) dbR) =
     Inr ([\<lparr>a_sale = 1, a_amount = 1000\<rparr>], 1000)"
    by code_simp
  moreover have "reverseAll (p_sales pay500) dbC = Inr dbCrev"
    by code_simp
  moreover have "fst (updatePayment 2 settled450 dbC) =
     Inr (pay500\<lparr>p_sales := [\<lparr>a_sale = 1, a_amount = 400\<rparr>, \<lparr>a_sale = 1, a_amount = 50\<rparr>],
                 p_totalAllocated := 450\<rparr>)"
    by code_simp
  moreover have
    "map_option s_balance (map_of (sales (snd (updatePayment 2 settled450 dbC))) 1) = Some (- 50)"
    by code_simp
  moreover have "fst (allocateAll (up_sales settled450) ([], 0) dbCrev) = Inl InvalidState"
    by code_simp
  ultimately show ?thesis
    by (simp add: dbB_def dbC_def dbR_def dbOver_def payOver_def saleOver_def saleA_def)
qed

text \<open>
  C5. Updating payment 1 of \<open>dbB\<close> with the amount and the allocation list it already
  has returns the same payment and leaves sale A as it was, but the customer's stored
  outstanding amount goes from 1800 to 3200: the save in the reversal adds A's restored
  balance of 1000, the save in the re-application adds its balance of 400.
\<close>

theorem updatePayment_same_allocations_drifts:
  "map_of (payments dbB) 1 = Some pay600 \<and>
   up_amount sameAgain = Some (p_amount pay600) \<and> up_sales sameAgain = p_sales pay600 \<and>
   updatePayment 1 sameAgain dbB =
     (Inr pay600,
      dbB\<lparr>customers := [(1, \<lparr>creditLimit = 0, outstandingAmount = 3200, totalPurchase = 1000\<rparr>)]\<rparr>) \<and>
   storedOutstanding dbB 1 = Some 1800 \<and>
   storedOutstanding (snd (updatePayment 1 sameAgain dbB)) 1 = Some 3200"
proof -
  have "updatePayment 1 sameAgain dbB =
     (Inr pay600,
      dbB\<lparr>customers := [(1, \<lparr>creditLimit = 0, outstandingAmount = 3200, totalPurchase = 1000\<rparr>)]\<rparr>)"
    by code_simp
  then show ?thesis
    by (simp add: dbB_def sameAgain_def pay600_def storedOutstanding_def)
qed

end
